theory Spec2Isabelle
  imports Complex_Main "HOL-Library.Log_Nat"
begin

section \<open>The image editor's session state and its event handlers\<close>

text \<open>
  A shallow embedding of the \<open>App\<close> component (\<open>src/unnamed/part_000\<close>): the React state
  cells become one record, every handler a function from the state before the event to the
  state after it. A handler runs to completion on the state it is given: while it awaits a
  collaborator no other handler is interleaved. The collaborators, the browser's decoder,
  clock and canvas are parameters of the handlers.
\<close>

subsection \<open>JavaScript numbers\<close>

text \<open>
  A number is a finite value, an infinity or NaN. The sign of zero is not modelled: a zero
  divisor is taken as \<open>+0\<close>, which is what the DOM's non-negative integer dimensions give.
  Two arithmetics follow. \<open>js_mul\<close> and \<open>js_div\<close> compute in the reals, with no rounding:
  the arithmetic of the geometry. \<open>js_mul64\<close>, \<open>js_div64\<close> and \<open>js_sub64\<close> round every finite
  result to the nearest binary64 value, as the engine does.
\<close>

datatype jsnum = Num real | PosInf | NegInf | NaN

fun js_mul :: "jsnum \<Rightarrow> jsnum \<Rightarrow> jsnum" where
  "js_mul NaN b = NaN"
| "js_mul a NaN = NaN"
| "js_mul (Num a) (Num b) = Num (a * b)"
| "js_mul (Num a) PosInf = (if a = 0 then NaN else if 0 < a then PosInf else NegInf)"
| "js_mul (Num a) NegInf = (if a = 0 then NaN else if 0 < a then NegInf else PosInf)"
| "js_mul PosInf (Num b) = (if b = 0 then NaN else if 0 < b then PosInf else NegInf)"
| "js_mul NegInf (Num b) = (if b = 0 then NaN else if 0 < b then NegInf else PosInf)"
| "js_mul PosInf PosInf = PosInf"
| "js_mul PosInf NegInf = NegInf"
| "js_mul NegInf PosInf = NegInf"
| "js_mul NegInf NegInf = PosInf"

fun js_div :: "jsnum \<Rightarrow> jsnum \<Rightarrow> jsnum" where
  "js_div NaN b = NaN"
| "js_div a NaN = NaN"
| "js_div (Num a) (Num b) =
     (if b = 0 then (if a = 0 then NaN else if 0 < a then PosInf else NegInf)
      else Num (a / b))"
| "js_div (Num a) PosInf = Num 0"
| "js_div (Num a) NegInf = Num 0"
| "js_div PosInf (Num b) = (if 0 \<le> b then PosInf else NegInf)"
| "js_div NegInf (Num b) = (if 0 \<le> b then NegInf else PosInf)"
| "js_div PosInf PosInf = NaN"
| "js_div PosInf NegInf = NaN"
| "js_div NegInf PosInf = NaN"
| "js_div NegInf NegInf = NaN"

text \<open>\<open>Math.round\<close>: the nearest integer, a tie going towards \<open>+\<infinity>\<close>; infinities and NaN pass.\<close>

fun Math_round :: "jsnum \<Rightarrow> jsnum" where
  "Math_round (Num x) = Num (of_int \<lfloor>x + 1 / 2\<rfloor>)"
| "Math_round PosInf = PosInf"
| "Math_round NegInf = NegInf"
| "Math_round NaN = NaN"

text \<open>A number is falsy when it is zero or NaN; \<open>a || b\<close> is \<open>a\<close> unless \<open>a\<close> is falsy.\<close>

fun js_falsy :: "jsnum \<Rightarrow> bool" where
  "js_falsy (Num x) = (x = 0)"
| "js_falsy NaN = True"
| "js_falsy PosInf = False"
| "js_falsy NegInf = False"

definition js_or :: "jsnum \<Rightarrow> jsnum \<Rightarrow> jsnum" where
  "js_or a b = (if js_falsy a then b else a)"

subsection \<open>Binary64\<close>

text \<open>The nearest integer, a tie going to the even one.\<close>

definition round_even :: "real \<Rightarrow> int" where
  "round_even r =
     (let f = \<lfloor>r\<rfloor>; d = r - of_int f
      in if d < 1 / 2 then f else if 1 / 2 < d then f + 1 else if even f then f else f + 1)"

text \<open>The binary exponent of a non-zero number: \<open>2 powi expo x \<le> \<bar>x\<bar> < 2 powi (expo x + 1)\<close>.\<close>

definition expo :: "real \<Rightarrow> int" where
  "expo x = (if 1 \<le> \<bar>x\<bar> then bitlen \<lfloor>\<bar>x\<bar>\<rfloor> - 1 else - bitlen (\<lceil>1 / \<bar>x\<bar>\<rceil> - 1))"

text \<open>
  Rounding to binary64, before overflow: the nearest multiple of the unit in the last of 53
  places, a tie going to the even multiple; below the exponent \<open>-1022\<close> the unit stays
  \<open>2 powi (- 1074)\<close> (the subnormal numbers).
\<close>

definition fl64 :: "real \<Rightarrow> real" where
  "fl64 x =
     (if x = 0 then 0
      else (let u = 2 powi (max (expo x) (- 1022) - 52) in of_int (round_even (x / u)) * u))"

text \<open>The number an exact result becomes: rounded, and an infinity from \<open>2 ^ 1024\<close> on.\<close>

definition to_double :: "real \<Rightarrow> jsnum" where
  "to_double x =
     (let r = fl64 x
      in if 2 ^ 1024 \<le> \<bar>r\<bar> then (if 0 < r then PosInf else NegInf) else Num r)"

fun js_mul64 :: "jsnum \<Rightarrow> jsnum \<Rightarrow> jsnum" where
  "js_mul64 NaN b = NaN"
| "js_mul64 a NaN = NaN"
| "js_mul64 (Num a) (Num b) = to_double (a * b)"
| "js_mul64 (Num a) PosInf = (if a = 0 then NaN else if 0 < a then PosInf else NegInf)"
| "js_mul64 (Num a) NegInf = (if a = 0 then NaN else if 0 < a then NegInf else PosInf)"
| "js_mul64 PosInf (Num b) = (if b = 0 then NaN else if 0 < b then PosInf else NegInf)"
| "js_mul64 NegInf (Num b) = (if b = 0 then NaN else if 0 < b then NegInf else PosInf)"
| "js_mul64 PosInf PosInf = PosInf"
| "js_mul64 PosInf NegInf = NegInf"
| "js_mul64 NegInf PosInf = NegInf"
| "js_mul64 NegInf NegInf = PosInf"

fun js_div64 :: "jsnum \<Rightarrow> jsnum \<Rightarrow> jsnum" where
  "js_div64 NaN b = NaN"
| "js_div64 a NaN = NaN"
| "js_div64 (Num a) (Num b) =
     (if b = 0 then (if a = 0 then NaN else if 0 < a then PosInf else NegInf)
      else to_double (a / b))"
| "js_div64 (Num a) PosInf = Num 0"
| "js_div64 (Num a) NegInf = Num 0"
| "js_div64 PosInf (Num b) = (if 0 \<le> b then PosInf else NegInf)"
| "js_div64 NegInf (Num b) = (if 0 \<le> b then NegInf else PosInf)"
| "js_div64 PosInf PosInf = NaN"
| "js_div64 PosInf NegInf = NaN"
| "js_div64 NegInf PosInf = NaN"
| "js_div64 NegInf NegInf = NaN"


text \<open>
  A number stored in an attribute of type \<open>unsigned long\<close>: NaN and the infinities become
  0, a finite number loses its fraction and is taken modulo \<open>2 ^ 32\<close>.
\<close>

fun to_unsigned_long :: "jsnum \<Rightarrow> nat" where
  "to_unsigned_long (Num x) = nat ((if 0 \<le> x then \<lfloor>x\<rfloor> else \<lceil>x\<rceil>) mod 2 ^ 32)"
| "to_unsigned_long a = 0"

text \<open>
  The \<open>width\<close> and \<open>height\<close> of a canvas reflect content attributes: a value above
  \<open>2 ^ 31 - 1\<close> is replaced by the default of the attribute.
\<close>

definition reflect_dimension :: "nat \<Rightarrow> nat \<Rightarrow> nat" where
  "reflect_dimension fallback v = (if v \<le> 2147483647 then v else fallback)"

subsection \<open>Strings and arrays\<close>

text \<open>
  Strings are byte strings: the white space and the line terminators beyond ASCII
  (U+00A0, U+2028, U+2029, U+FEFF and the space separators) have no one-character
  counterpart here.
\<close>

definition is_white_space :: "char \<Rightarrow> bool" where
  "is_white_space c = (c \<in> set [CHR 0x09, CHR 0x0A, CHR 0x0B, CHR 0x0C, CHR 0x0D, CHR '' ''])"

definition is_line_terminator :: "char \<Rightarrow> bool" where
  "is_line_terminator c = (c = CHR 0x0A \<or> c = CHR 0x0D)"

text \<open>\<open>String.prototype.trim\<close>.\<close>

definition trim :: "string \<Rightarrow> string" where
  "trim s = rev (dropWhile is_white_space (rev (dropWhile is_white_space s)))"

text \<open>\<open>String.prototype.split\<close> on a one-character separator: the empty string gives one empty piece.\<close>

fun split :: "char \<Rightarrow> string \<Rightarrow> string list" where
  "split sep [] = [[]]"
| "split sep (c # cs) =
     (if c = sep then [] # split sep cs
      else (case split sep cs of [] \<Rightarrow> [[c]] | p # ps \<Rightarrow> (c # p) # ps))"

text \<open>
  \<open>Array.prototype.slice(start, end)\<close> at integer arguments: a negative index counts from the
  end, both are clamped to the array.
\<close>

definition slice :: "'a list \<Rightarrow> int \<Rightarrow> int \<Rightarrow> 'a list" where
  "slice xs start fin =
     (let len = int (length xs);
          k = (if start < 0 then max (len + start) 0 else min start len);
          final = (if fin < 0 then max (len + fin) 0 else min fin len)
      in take (nat (final - k)) (drop (nat k) xs))"

text \<open>Decimal digits of a number, as a template literal prints \<open>Date.now()\<close>.\<close>

fun show_nat :: "nat \<Rightarrow> string" where
  "show_nat n =
     (if n < 10 then [char_of (48 + n)]
      else show_nat (n div 10) @ [char_of (48 + n mod 10)])"

declare show_nat.simps [simp del]

text \<open>
  The capture of the regular expression \<open>/:(.*?);/\<close>: from the first colon that is followed,
  before any line terminator, by a semicolon, the text up to that semicolon. \<open>None\<close> is
  the \<open>null\<close> of a failed match.
\<close>

fun upto_semicolon :: "string \<Rightarrow> string option" where
  "upto_semicolon [] = None"
| "upto_semicolon (c # cs) =
     (if c = CHR '';'' then Some []
      else if is_line_terminator c then None
      else map_option ((#) c) (upto_semicolon cs))"

fun match_mime :: "string \<Rightarrow> string option" where
  "match_mime [] = None"
| "match_mime (c # cs) =
     (if c = CHR '':'' then
        (case upto_semicolon cs of Some m \<Rightarrow> Some m | None \<Rightarrow> match_mime cs)
      else match_mime cs)"

subsection \<open>Files and thrown values\<close>

text \<open>What a \<open>catch\<close> receives: an \<open>Error\<close> with its message, or some other value.\<close>

datatype thrown = Error string | NotAnError

text \<open>\<open>err instanceof Error ? err.message : 'An unknown error occurred.'\<close>\<close>

fun errorMessage :: "thrown \<Rightarrow> string" where
  "errorMessage (Error m) = m"
| "errorMessage NotAnError = ''An unknown error occurred.''"

record File =
  bits :: string
  name :: string
  mime_type :: string

text \<open>
  \<open>dataURLtoFile\<close> (lines 22-36). \<open>atob\<close> is the browser's base64 decoder, which throws on
  malformed input; the loop copies its characters into the byte array one by one.
\<close>

definition dataURLtoFile :: "(string \<Rightarrow> thrown + string) \<Rightarrow> string \<Rightarrow> string \<Rightarrow> thrown + File" where
  "dataURLtoFile atob dataurl filename =
     (let arr = split CHR '','' dataurl in
      if length arr < 2 then Inl (Error ''Invalid data URL'')
      else
        (case match_mime (arr ! 0) of
           None \<Rightarrow> Inl (Error ''Could not parse MIME type from data URL'')
         | Some mime \<Rightarrow>
             if mime = [] then Inl (Error ''Could not parse MIME type from data URL'')
             else
               (case atob (arr ! 1) of
                  Inl t \<Rightarrow> Inl t
                | Inr bstr \<Rightarrow> Inr \<lparr>bits = bstr, name = filename, mime_type = mime\<rparr>)))"

subsection \<open>The state\<close>

datatype Tab = Retouch | Magic_fill | Adjust | Styles | Crop_tab | Analyze

text \<open>A hotspot \<open>{x, y}\<close>.\<close>

type_synonym point = "jsnum \<times> jsnum"

text \<open>A crop rectangle of the crop widget, in rendered coordinates.\<close>

datatype crop_unit = Px | Percent

record Crop =
  crop_x :: real
  crop_y :: real
  crop_width :: real
  crop_height :: real
  unit :: crop_unit

text \<open>One turn of the conversation with the analysis collaborator.\<close>

datatype Part = InlineData string string | Text string

datatype Role = User | Model

record Content =
  role :: Role
  parts :: "Part list"

text \<open>
  Modelled from the spec: the mask canvas behind \<open>maskCanvasRef\<close> (the component
  \<open>MaskingCanvas\<close> is not among the sources). It holds the painted pixels of the "current
  paint mask"; \<open>clearMask\<close> empties it.
\<close>

type_synonym mask_canvas = "(nat \<times> nat) list"

definition clearMask :: "mask_canvas \<Rightarrow> mask_canvas" where
  "clearMask m = []"

text \<open>
  The state cells the handlers write (lines 41-62). \<open>None\<close> is \<open>null\<close> or \<open>undefined\<close>;
  \<open>maskCanvasRef\<close> is \<open>None\<close> while no mask canvas is mounted.
\<close>

record app =
  history :: "File list"
  historyIndex :: int
  prompt :: string
  isLoading :: bool
  error :: "string option"
  editHotspot :: "point option"
  displayHotspot :: "point option"
  activeTab :: Tab
  chatHistory :: "Content list"
  hasInitialAnalysisRun :: bool
  crop :: "Crop option"
  completedCrop :: "Crop option"
  maskDataUrl :: "string option"
  maskCanvasRef :: "mask_canvas option"

text \<open>The state of a freshly mounted component.\<close>

definition initial :: app where
  "initial = \<lparr>history = [], historyIndex = -1, prompt = [], isLoading = False, error = None,
     editHotspot = None, displayHotspot = None, activeTab = Retouch, chatHistory = [],
     hasInitialAnalysisRun = False, crop = None, completedCrop = None, maskDataUrl = None,
     maskCanvasRef = None\<rparr>"

text \<open>\<open>history[i] ?? null\<close>: an index outside the array reads \<open>undefined\<close>.\<close>

definition at_index :: "'a list \<Rightarrow> int \<Rightarrow> 'a option" where
  "at_index xs i = (if 0 \<le> i \<and> i < int (length xs) then Some (xs ! nat i) else None)"

definition currentImage :: "app \<Rightarrow> File option" where
  "currentImage s = at_index (history s) (historyIndex s)"

definition originalImage :: "app \<Rightarrow> File option" where
  "originalImage s = at_index (history s) 0"

definition canUndo :: "app \<Rightarrow> bool" where
  "canUndo s = (historyIndex s > 0)"

definition canRedo :: "app \<Rightarrow> bool" where
  "canRedo s = (historyIndex s < int (length (history s)) - 1)"

subsection \<open>The browser and the collaborators\<close>

text \<open>The displayed image element: intrinsic size, layout size, and its bounding box's corner.\<close>

record img_el =
  naturalWidth :: nat
  naturalHeight :: nat
  img_width :: nat
  img_height :: nat
  clientWidth :: nat
  clientHeight :: nat
  rect_left :: real
  rect_top :: real

record mouse_event =
  clientX :: real
  clientY :: real
  currentTarget :: img_el

text \<open>
  The canvas a crop is drawn on: its size in pixels, the transform set on its context, and
  the arguments of each \<open>drawImage\<close> call after the image (source x, y, width, height, then
  destination x, y, width, height).
\<close>

record canvas =
  canvas_width :: nat
  canvas_height :: nat
  transform :: "jsnum list"
  imageSmoothingQuality :: string
  drawn :: "jsnum list list"

text \<open>The answer of the analysis collaborator: \<open>promptFeedback?.blockReason\<close> and \<open>text\<close>.\<close>

record response =
  blockReason :: "string option"
  text_of :: "string option"

text \<open>
  What a handler reads from outside the component. A collaborator's promise either
  resolves (\<open>Inr\<close>) or rejects (\<open>Inl\<close>); \<open>getContext2d\<close> is whether \<open>getContext('2d')\<close> gives
  a context; \<open>imgRef\<close> is the image element, if one is mounted.
\<close>

record env =
  atob :: "string \<Rightarrow> thrown + string"
  now :: nat
  devicePixelRatio :: jsnum
  getContext2d :: bool
  toDataURL :: "canvas \<Rightarrow> string"
  imgRef :: "img_el option"
  generateEditedImage :: "File \<Rightarrow> string \<Rightarrow> point \<Rightarrow> thrown + string"
  generateInpaintedImage :: "File \<Rightarrow> File \<Rightarrow> string \<Rightarrow> thrown + string"
  generateStyledImage :: "File \<Rightarrow> string \<Rightarrow> thrown + string"
  generateAdjustedImage :: "File \<Rightarrow> string \<Rightarrow> thrown + string"
  fileToPart :: "File \<Rightarrow> thrown + Part"
  getDrawingAnalysis :: "Content list \<Rightarrow> thrown + response"

text \<open>Sequencing inside a \<open>try\<close> block: the first throw ends it.\<close>

definition and_then :: "thrown + 'a \<Rightarrow> ('a \<Rightarrow> thrown + 'b) \<Rightarrow> thrown + 'b" where
  "and_then r f = (case r of Inl t \<Rightarrow> Inl t | Inr x \<Rightarrow> f x)"

subsection \<open>History handlers\<close>

text \<open>\<open>addImageToHistory\<close> (lines 119-129).\<close>

definition addImageToHistory :: "app \<Rightarrow> File \<Rightarrow> app" where
  "addImageToHistory s newImageFile =
     (let newHistory = slice (history s) 0 (historyIndex s + 1) @ [newImageFile]
      in s\<lparr>history := newHistory,
            historyIndex := int (length newHistory) - 1,
            crop := None,
            completedCrop := None,
            maskDataUrl := None,
            maskCanvasRef := map_option clearMask (maskCanvasRef s)\<rparr>)"

text \<open>\<open>handleImageUpload\<close> (lines 131-143).\<close>

definition handleImageUpload :: "app \<Rightarrow> File \<Rightarrow> app" where
  "handleImageUpload s file =
     s\<lparr>error := None,
       history := [file],
       historyIndex := 0,
       editHotspot := None,
       displayHotspot := None,
       activeTab := Retouch,
       crop := None,
       completedCrop := None,
       chatHistory := [],
       hasInitialAnalysisRun := False,
       maskDataUrl := None\<rparr>"

text \<open>\<open>handleUndo\<close> and \<open>handleRedo\<close> (lines 357-373).\<close>

definition handleUndo :: "app \<Rightarrow> app" where
  "handleUndo s =
     (if canUndo s then
        s\<lparr>historyIndex := historyIndex s - 1,
          editHotspot := None,
          displayHotspot := None,
          maskDataUrl := None\<rparr>
      else s)"

definition handleRedo :: "app \<Rightarrow> app" where
  "handleRedo s =
     (if canRedo s then
        s\<lparr>historyIndex := historyIndex s + 1,
          editHotspot := None,
          displayHotspot := None,
          maskDataUrl := None\<rparr>
      else s)"

text \<open>\<open>handleReset\<close> (lines 375-386).\<close>

definition handleReset :: "app \<Rightarrow> app" where
  "handleReset s =
     (if length (history s) > 0 then
        s\<lparr>historyIndex := 0,
          error := None,
          editHotspot := None,
          displayHotspot := None,
          chatHistory := [],
          hasInitialAnalysisRun := False,
          maskDataUrl := None,
          maskCanvasRef := map_option clearMask (maskCanvasRef s)\<rparr>
      else s)"

text \<open>\<open>handleUploadNew\<close> (lines 388-397).\<close>

definition handleUploadNew :: "app \<Rightarrow> app" where
  "handleUploadNew s =
     s\<lparr>history := [],
       historyIndex := -1,
       error := None,
       prompt := [],
       editHotspot := None,
       displayHotspot := None,
       chatHistory := [],
       maskDataUrl := None\<rparr>"

text \<open>\<open>handleFileSelect\<close> (lines 411-415): \<open>files\<close> is \<open>null\<close> or a list of files.\<close>

definition handleFileSelect :: "app \<Rightarrow> File list option \<Rightarrow> app" where
  "handleFileSelect s files =
     (case files of
        None \<Rightarrow> s
      | Some fs \<Rightarrow> (case fs of [] \<Rightarrow> s | f # rest \<Rightarrow> handleImageUpload s f))"

subsection \<open>Edit handlers\<close>

text \<open>
  Each handler checks its preconditions, awaits its collaborator inside \<open>try\<close>, appends the
  decoded result on success and records a message in \<open>catch\<close>; \<open>finally\<close> ends the loading
  state. \<open>handleGenerate\<close> (lines 145-177):
\<close>

definition handleGenerate :: "env \<Rightarrow> app \<Rightarrow> app" where
  "handleGenerate e s =
     (case currentImage s of
        None \<Rightarrow> s\<lparr>error := Some ''No image loaded to edit.''\<rparr>
      | Some img \<Rightarrow>
          if trim (prompt s) = [] then
            s\<lparr>error := Some ''Please enter a description for your edit.''\<rparr>
          else
            (case editHotspot s of
               None \<Rightarrow> s\<lparr>error := Some ''Please click on the image to select an area to edit.''\<rparr>
             | Some hotspot \<Rightarrow>
                 (let s1 = s\<lparr>isLoading := True, error := None\<rparr>;
                      tried = and_then (generateEditedImage e img (prompt s) hotspot)
                        (\<lambda>editedImageUrl. dataURLtoFile (atob e) editedImageUrl
                           (''edited-'' @ show_nat (now e) @ ''.png''));
                      s2 = (case tried of
                              Inr newImageFile \<Rightarrow>
                                (addImageToHistory s1 newImageFile)
                                  \<lparr>editHotspot := None, displayHotspot := None\<rparr>
                            | Inl err \<Rightarrow>
                                s1\<lparr>error := Some (''Failed to generate the image. '' @ errorMessage err)\<rparr>)
                  in s2\<lparr>isLoading := False\<rparr>)))"

text \<open>\<open>handleGenerateFill\<close> (lines 179-200): an empty mask URL is as good as none.\<close>

definition handleGenerateFill :: "env \<Rightarrow> app \<Rightarrow> string \<Rightarrow> app" where
  "handleGenerateFill e s fillPrompt =
     (case (currentImage s, maskDataUrl s) of
        (Some img, Some (c # cs)) \<Rightarrow>
          (let s1 = s\<lparr>isLoading := True, error := None\<rparr>;
               tried = and_then (dataURLtoFile (atob e) (c # cs) ''mask.png'')
                 (\<lambda>maskFile. and_then (generateInpaintedImage e img maskFile fillPrompt)
                    (\<lambda>filledImageUrl. dataURLtoFile (atob e) filledImageUrl
                       (''filled-'' @ show_nat (now e) @ ''.png'')));
               s2 = (case tried of
                       Inr newImageFile \<Rightarrow> addImageToHistory s1 newImageFile
                     | Inl err \<Rightarrow>
                         s1\<lparr>error := Some (''Failed to generate the filled image. '' @ errorMessage err)\<rparr>)
           in s2\<lparr>isLoading := False\<rparr>)
      | _ \<Rightarrow> s\<lparr>error := Some ''Please load an image and mask an area to fill.''\<rparr>)"

text \<open>\<open>handleApplyStyle\<close> (lines 202-222).\<close>

definition handleApplyStyle :: "env \<Rightarrow> app \<Rightarrow> string \<Rightarrow> app" where
  "handleApplyStyle e s stylePrompt =
     (case currentImage s of
        None \<Rightarrow> s\<lparr>error := Some ''No image loaded to apply a style to.''\<rparr>
      | Some img \<Rightarrow>
          (let s1 = s\<lparr>isLoading := True, error := None\<rparr>;
               tried = and_then (generateStyledImage e img stylePrompt)
                 (\<lambda>styledImageUrl. dataURLtoFile (atob e) styledImageUrl
                    (''styled-'' @ show_nat (now e) @ ''.png''));
               s2 = (case tried of
                       Inr newImageFile \<Rightarrow> addImageToHistory s1 newImageFile
                     | Inl err \<Rightarrow>
                         s1\<lparr>error := Some (''Failed to apply the style. '' @ errorMessage err)\<rparr>)
           in s2\<lparr>isLoading := False\<rparr>))"

text \<open>\<open>handleApplyAdjustment\<close> (lines 224-244).\<close>

definition handleApplyAdjustment :: "env \<Rightarrow> app \<Rightarrow> string \<Rightarrow> app" where
  "handleApplyAdjustment e s adjustmentPrompt =
     (case currentImage s of
        None \<Rightarrow> s\<lparr>error := Some ''No image loaded to apply an adjustment to.''\<rparr>
      | Some img \<Rightarrow>
          (let s1 = s\<lparr>isLoading := True, error := None\<rparr>;
               tried = and_then (generateAdjustedImage e img adjustmentPrompt)
                 (\<lambda>adjustedImageUrl. dataURLtoFile (atob e) adjustedImageUrl
                    (''adjusted-'' @ show_nat (now e) @ ''.png''));
               s2 = (case tried of
                       Inr newImageFile \<Rightarrow> addImageToHistory s1 newImageFile
                     | Inl err \<Rightarrow>
                         s1\<lparr>error := Some (''Failed to apply the adjustment. '' @ errorMessage err)\<rparr>)
           in s2\<lparr>isLoading := False\<rparr>))"

subsection \<open>Cropping\<close>

text \<open>
  The canvas \<open>handleApplyCrop\<close> draws (lines 253-282), in binary64 arithmetic. The size is
  assigned twice; the second assignment, scaled by the pixel ratio, is the one that stays.
  The canvas keeps what the assignment stores: an \<open>unsigned long\<close>, with 300 and 150 as the
  defaults of width and height.
\<close>

definition cropCanvas :: "Crop \<Rightarrow> img_el \<Rightarrow> jsnum \<Rightarrow> canvas" where
  "cropCanvas completed img pixelRatio =
     (let scaleX = js_div64 (Num (real (naturalWidth img))) (Num (real (img_width img)));
          scaleY = js_div64 (Num (real (naturalHeight img))) (Num (real (img_height img)))
      in \<lparr>canvas_width =
            reflect_dimension 300 (to_unsigned_long (js_mul64 (Num (crop_width completed)) pixelRatio)),
          canvas_height =
            reflect_dimension 150 (to_unsigned_long (js_mul64 (Num (crop_height completed)) pixelRatio)),
          transform = [pixelRatio, Num 0, Num 0, pixelRatio, Num 0, Num 0],
          imageSmoothingQuality = ''high'',
          drawn = [[js_mul64 (Num (crop_x completed)) scaleX,
                    js_mul64 (Num (crop_y completed)) scaleY,
                    js_mul64 (Num (crop_width completed)) scaleX,
                    js_mul64 (Num (crop_height completed)) scaleY,
                    Num 0,
                    Num 0,
                    Num (crop_width completed),
                    Num (crop_height completed)]]\<rparr>)"

text \<open>
  \<open>handleApplyCrop\<close> (lines 246-288). There is no \<open>try\<close> here: a throw of \<open>dataURLtoFile\<close>
  leaves the handler (\<open>Inl\<close>) before any state is written.
\<close>

definition handleApplyCrop :: "env \<Rightarrow> app \<Rightarrow> thrown + app" where
  "handleApplyCrop e s =
     (case (completedCrop s, imgRef e) of
        (Some completed, Some img) \<Rightarrow>
          if \<not> getContext2d e then Inr (s\<lparr>error := Some ''Could not process the crop.''\<rparr>)
          else
            (let pixelRatio = js_or (devicePixelRatio e) (Num 1);
                 croppedImageUrl = toDataURL e (cropCanvas completed img pixelRatio)
             in and_then
                  (dataURLtoFile (atob e) croppedImageUrl (''cropped-'' @ show_nat (now e) @ ''.png''))
                  (\<lambda>newImageFile. Inr (addImageToHistory s newImageFile)))
      | _ \<Rightarrow> Inr (s\<lparr>error := Some ''Please select an area to crop.''\<rparr>))"

subsection \<open>Analysis\<close>

text \<open>A string is truthy when it is present and not empty.\<close>

fun truthy :: "string option \<Rightarrow> bool" where
  "truthy None = False"
| "truthy (Some t) = (t \<noteq> [])"

text \<open>The \<open>try\<close> block of \<open>handleSendMessage\<close> (lines 319-333): the model's turn, or a throw.\<close>

definition modelTurn :: "env \<Rightarrow> Content list \<Rightarrow> thrown + Content" where
  "modelTurn e newHistory =
     and_then (getDrawingAnalysis e newHistory)
       (\<lambda>response.
          if truthy (blockReason response) then
            Inl (Error (''Request was blocked. Reason: '' @ the (blockReason response) @ ''.''))
          else if \<not> truthy (text_of response) then
            Inl (Error ''The AI model did not return a text response. This might be due to safety filters.'')
          else Inr \<lparr>role = Model, parts = [Text (the (text_of response))]\<rparr>)"

text \<open>\<open>handleSendMessage\<close> (lines 290-343).\<close>

definition handleSendMessage :: "env \<Rightarrow> app \<Rightarrow> string \<Rightarrow> app" where
  "handleSendMessage e s message =
     (case currentImage s of
        None \<Rightarrow> s\<lparr>error := Some ''Please upload an image to analyze.''\<rparr>
      | Some img \<Rightarrow>
          (let s1 = s\<lparr>isLoading := True, error := None\<rparr>;
               firstParts = (if chatHistory s = [] then
                               and_then (fileToPart e img) (\<lambda>imagePart. Inr [imagePart])
                             else Inr [])
           in case firstParts of
                Inl err \<Rightarrow>
                  s1\<lparr>error := Some (''Could not process image for analysis. '' @ errorMessage err),
                     isLoading := False\<rparr>
              | Inr imageParts \<Rightarrow>
                  (let userParts = imageParts @ [Text message];
                       userContent = \<lparr>role = User, parts = userParts\<rparr>;
                       newHistory = chatHistory s @ [userContent];
                       s2 = s1\<lparr>chatHistory := newHistory\<rparr>;
                       s3 = (case modelTurn e newHistory of
                               Inr modelContent \<Rightarrow>
                                 s2\<lparr>chatHistory := chatHistory s2 @ [modelContent]\<rparr>
                             | Inl err \<Rightarrow>
                                 s2\<lparr>error := Some (''Failed to get analysis. '' @ errorMessage err),
                                    chatHistory := slice (chatHistory s2) 0 (-1)\<rparr>)
                   in s3\<lparr>isLoading := False\<rparr>)))"

text \<open>The effect that starts the first analysis when the analysis tab is shown (lines 346-354).\<close>

definition triggerInitialAnalysis :: "env \<Rightarrow> app \<Rightarrow> app" where
  "triggerInitialAnalysis e s =
     (if activeTab s = Analyze \<and> \<not> isLoading s \<and> \<not> hasInitialAnalysisRun s
         \<and> chatHistory s = [] \<and> currentImage s \<noteq> None
      then handleSendMessage e (s\<lparr>hasInitialAnalysisRun := True\<rparr>)
             ''Please provide a brief, high-level analysis of this artwork. Give me one key strength and one area for improvement.''
      else s)"

subsection \<open>Hotspots\<close>

text \<open>\<open>handleImageClick\<close> (lines 417-436), in the arithmetic of the reals.\<close>

definition handleImageClick :: "app \<Rightarrow> mouse_event \<Rightarrow> app" where
  "handleImageClick s ev =
     (if activeTab s \<noteq> Retouch then s
      else
        (let img = currentTarget ev;
             offsetX = clientX ev - rect_left img;
             offsetY = clientY ev - rect_top img;
             scaleX = js_div (Num (real (naturalWidth img))) (Num (real (clientWidth img)));
             scaleY = js_div (Num (real (naturalHeight img))) (Num (real (clientHeight img)));
             originalX = Math_round (js_mul (Num offsetX) scaleX);
             originalY = Math_round (js_mul (Num offsetY) scaleY)
         in s\<lparr>displayHotspot := Some (Num offsetX, Num offsetY),
               editHotspot := Some (originalX, originalY)\<rparr>))"


subsection \<open>Events\<close>

text \<open>
  The events of a session, each with the handler it runs. An exception that leaves
  \<open>handleApplyCrop\<close> was thrown before any state was written, so the state stays.
\<close>

datatype event =
    FileSelect "File list option"
  | ImageUpload File
  | Append File
  | Generate
  | GenerateFill string
  | ApplyStyle string
  | ApplyAdjustment string
  | ApplyCrop
  | SendMessage string
  | InitialAnalysis
  | Undo
  | Redo
  | Reset
  | UploadNew
  | ImageClick mouse_event
  | DismissError

fun handle :: "env \<Rightarrow> app \<Rightarrow> event \<Rightarrow> app" where
  "handle e s (FileSelect files) = handleFileSelect s files"
| "handle e s (ImageUpload f) = handleImageUpload s f"
| "handle e s (Append f) = addImageToHistory s f"
| "handle e s Generate = handleGenerate e s"
| "handle e s (GenerateFill p) = handleGenerateFill e s p"
| "handle e s (ApplyStyle p) = handleApplyStyle e s p"
| "handle e s (ApplyAdjustment p) = handleApplyAdjustment e s p"
| "handle e s ApplyCrop = (case handleApplyCrop e s of Inl err \<Rightarrow> s | Inr s' \<Rightarrow> s')"
| "handle e s (SendMessage m) = handleSendMessage e s m"
| "handle e s InitialAnalysis = triggerInitialAnalysis e s"
| "handle e s Undo = handleUndo s"
| "handle e s Redo = handleRedo s"
| "handle e s Reset = handleReset s"
| "handle e s UploadNew = handleUploadNew s"
| "handle e s (ImageClick ev) = handleImageClick s ev"
| "handle e s DismissError = s\<lparr>error := None\<rparr>"

text \<open>A run: each event meets the environment of its moment.\<close>

fun run :: "app \<Rightarrow> (env \<times> event) list \<Rightarrow> app" where
  "run s [] = s"
| "run s ((e, ev) # rest) = run (handle e s ev) rest"

text \<open>The invariant of the history: the cursor is \<open>-1\<close> on the empty history and an index otherwise.\<close>

definition hist_inv :: "app \<Rightarrow> bool" where
  "hist_inv s =
     (- 1 \<le> historyIndex s \<and> historyIndex s < int (length (history s))
      \<and> ((historyIndex s = - 1) = (history s = [])))"

text \<open>
  The paint mask is kept twice: as the mask image in \<open>maskDataUrl\<close> and as the painted
  pixels of the mask canvas. It is cleared when the one is \<open>null\<close> and the other, if a canvas
  is mounted, has nothing painted.
\<close>

definition canvas_blank :: "app \<Rightarrow> bool" where
  "canvas_blank s = (case maskCanvasRef s of None \<Rightarrow> True | Some m \<Rightarrow> m = [])"

definition paint_mask_cleared :: "app \<Rightarrow> bool" where
  "paint_mask_cleared s = (maskDataUrl s = None \<and> canvas_blank s)"

definition hotspots_cleared :: "app \<Rightarrow> bool" where
  "hotspots_cleared s = (editHotspot s = None \<and> displayHotspot s = None)"

text \<open>The five pieces of transient selection state, all cleared.\<close>

definition selection_cleared :: "app \<Rightarrow> bool" where
  "selection_cleared s =
     (crop s = None \<and> completedCrop s = None \<and> paint_mask_cleared s \<and> hotspots_cleared s)"

text \<open>What an append clears.\<close>

definition commit_cleared :: "app \<Rightarrow> bool" where
  "commit_cleared s = (crop s = None \<and> completedCrop s = None \<and> paint_mask_cleared s)"

subsection \<open>The round trip of a hotspot\<close>



fun finite_num :: "jsnum \<Rightarrow> bool" where
  "finite_num (Num x) = True"
| "finite_num a = False"

subsection \<open>An example session\<close>

text \<open>Four snapshots, an image of 800 by 600 shown at 400 by 300, and stub collaborators.\<close>

definition snapshot :: "string \<Rightarrow> File" where
  "snapshot n = \<lparr>bits = n, name = n @ ''.png'', mime_type = ''image/png''\<rparr>"

definition shown_image :: img_el where
  "shown_image = \<lparr>naturalWidth = 800, naturalHeight = 600, img_width = 400, img_height = 300,
     clientWidth = 400, clientHeight = 300, rect_left = 20, rect_top = 10\<rparr>"

text \<open>The same image before layout (no rendered width), and a one-pixel image shown large.\<close>

definition unlaid_image :: img_el where
  "unlaid_image = shown_image\<lparr>img_width := 0, clientWidth := 0\<rparr>"

definition tiny_image :: img_el where
  "tiny_image = shown_image\<lparr>naturalWidth := 1, naturalHeight := 1\<rparr>"


definition click_at :: "img_el \<Rightarrow> real \<Rightarrow> real \<Rightarrow> mouse_event" where
  "click_at img x y = \<lparr>clientX = rect_left img + x, clientY = rect_top img + y, currentTarget = img\<rparr>"

definition stub_env :: env where
  "stub_env = \<lparr>atob = (\<lambda>b. Inr b), now = 1700000000000, devicePixelRatio = Num 2,
     getContext2d = True, toDataURL = (\<lambda>c. ''data:image/png;base64,Q1JPUA==''),
     imgRef = Some shown_image,
     generateEditedImage = (\<lambda>f p h. Inr ''data:image/png;base64,UkVE''),
     generateInpaintedImage = (\<lambda>f m p. Inr ''data:image/png;base64,RklMTA==''),
     generateStyledImage = (\<lambda>f p. Inr ''data:image/png;base64,U1RZTEU=''),
     generateAdjustedImage = (\<lambda>f p. Inr ''data:image/png;base64,QURK''),
     fileToPart = (\<lambda>f. Inr (InlineData (mime_type f) (bits f))),
     getDrawingAnalysis = (\<lambda>h. Inr \<lparr>blockReason = None, text_of = Some ''Strong composition.''\<rparr>)\<rparr>"

text \<open>The same environment with every collaborator rejecting.\<close>

definition failing_env :: env where
  "failing_env = stub_env\<lparr>
     generateEditedImage := (\<lambda>f p h. Inl (Error ''quota exceeded'')),
     generateInpaintedImage := (\<lambda>f m p. Inl (Error ''quota exceeded'')),
     generateStyledImage := (\<lambda>f p. Inl NotAnError),
     generateAdjustedImage := (\<lambda>f p. Inl (Error ''quota exceeded'')),
     getDrawingAnalysis := (\<lambda>h. Inl (Error ''quota exceeded''))\<rparr>"

text \<open>A session with three snapshots, the last one current, and one with a single upload.\<close>

definition three_snapshots :: app where
  "three_snapshots = initial\<lparr>history := [snapshot ''A'', snapshot ''B'', snapshot ''C''],
     historyIndex := 2\<rparr>"

definition uploaded :: app where
  "uploaded = handleImageUpload initial (snapshot ''I0'')"

text \<open>The upload with every piece of selection state set, and a prompt typed.\<close>

definition selecting :: app where
  "selecting = uploaded\<lparr>prompt := ''make it red'',
     editHotspot := Some (Num 200, Num 300),
     displayHotspot := Some (Num 100, Num 150),
     crop := Some \<lparr>crop_x = 50, crop_y = 50, crop_width = 100, crop_height = 80, unit = Px\<rparr>,
     completedCrop := Some \<lparr>crop_x = 50, crop_y = 50, crop_width = 100, crop_height = 80, unit = Px\<rparr>,
     maskDataUrl := Some ''data:image/png;base64,TUFTSw=='',
     maskCanvasRef := Some [(1, 1)]\<rparr>"

text \<open>Three snapshots, the middle one current, with every piece of selection state set.\<close>

definition cropping :: app where
  "cropping = three_snapshots\<lparr>historyIndex := 1,
     editHotspot := Some (Num 200, Num 300),
     displayHotspot := Some (Num 100, Num 150),
     maskDataUrl := Some ''data:image/png;base64,TUFTSw=='',
     maskCanvasRef := Some [(1, 1)],
     crop := Some \<lparr>crop_x = 50, crop_y = 50, crop_width = 100, crop_height = 80, unit = Px\<rparr>,
     completedCrop := Some \<lparr>crop_x = 50, crop_y = 50, crop_width = 100, crop_height = 80, unit = Px\<rparr>\<rparr>"

text \<open>Three snapshots after a failed question on the analysis tab.\<close>

definition analysed :: app where
  "analysed = three_snapshots\<lparr>activeTab := Analyze,
     chatHistory := [\<lparr>role = User, parts = [Text ''What can I improve?'']\<rparr>,
                     \<lparr>role = Model, parts = [Text ''The shading.'']\<rparr>],
     hasInitialAnalysisRun := True,
     error := Some ''Failed to get analysis. quota exceeded''\<rparr>"

section \<open>Properties of the history\<close>

subsection \<open>Slices and appending\<close>

lemma slice_prefix: "0 \<le> i \<Longrightarrow> slice xs 0 i = take (nat i) xs"
  by (simp add: slice_def Let_def min_def)

lemma slice_drop_last: "slice xs 0 (- 1) = butlast xs"
  by (cases "xs = []") (simp_all add: slice_def Let_def butlast_conv_take nat_diff_distrib max_def)

lemma addImageToHistory_inv: "hist_inv s \<Longrightarrow> hist_inv (addImageToHistory s b)"
  by (auto simp: hist_inv_def addImageToHistory_def Let_def slice_prefix)

lemma addImageToHistory_history:
  "- 1 \<le> historyIndex s \<Longrightarrow>
   history (addImageToHistory s b) = take (nat (historyIndex s + 1)) (history s) @ [b]"
  by (simp add: addImageToHistory_def Let_def slice_prefix)

lemma addImageToHistory_index:
  "historyIndex (addImageToHistory s b) = int (length (history (addImageToHistory s b))) - 1"
  by (simp add: addImageToHistory_def Let_def)

lemma three_snapshots_inv: "hist_inv three_snapshots \<and> history three_snapshots \<noteq> []"
  by (simp add: hist_inv_def three_snapshots_def initial_def)

text \<open>
  Claim C1. On a non-empty history with cursor \<open>i\<close>, appending a buffer \<open>b\<close> leaves the
  entries \<open>0..i\<close> followed by \<open>b\<close>, puts the cursor on the new last entry and leaves nothing
  to redo. For the history \<open>[A, B, C]\<close> with cursor 2, two undos and an append of \<open>D\<close> give
  \<open>[A, D]\<close> with cursor 1 and redo disabled.
\<close>

theorem append_truncates_redo_branch:
  "(hist_inv s \<and> history s \<noteq> [] \<longrightarrow>
      history (addImageToHistory s b) = take (nat (historyIndex s) + 1) (history s) @ [b]
      \<and> historyIndex (addImageToHistory s b) = int (length (history (addImageToHistory s b))) - 1
      \<and> historyIndex (addImageToHistory s b) = historyIndex s + 1
      \<and> \<not> canRedo (addImageToHistory s b))
   \<and> (history t = [A, B, C] \<and> historyIndex t = 2 \<longrightarrow>
      history (addImageToHistory (handleUndo (handleUndo t)) D) = [A, D]
      \<and> historyIndex (addImageToHistory (handleUndo (handleUndo t)) D) = 1
      \<and> \<not> canRedo (addImageToHistory (handleUndo (handleUndo t)) D))"
proof (intro conjI impI)
  assume h: "hist_inv s \<and> history s \<noteq> []"
  then have i: "0 \<le> historyIndex s" "historyIndex s < int (length (history s))"
    by (auto simp: hist_inv_def)
  then have n: "nat (historyIndex s + 1) = nat (historyIndex s) + 1"
    by simp
  from i show hist: "history (addImageToHistory s b) = take (nat (historyIndex s) + 1) (history s) @ [b]"
    using addImageToHistory_history [of s b] n by simp
  show idx: "historyIndex (addImageToHistory s b) = int (length (history (addImageToHistory s b))) - 1"
    by (rule addImageToHistory_index)
  from i show "historyIndex (addImageToHistory s b) = historyIndex s + 1"
    unfolding idx hist by (auto simp: min_def)
  show "\<not> canRedo (addImageToHistory s b)"
    by (simp add: canRedo_def idx)
next
  assume t: "history t = [A, B, C] \<and> historyIndex t = 2"
  let ?u = "handleUndo (handleUndo t)"
  from t have u: "history ?u = [A, B, C]" "historyIndex ?u = 0"
    by (simp_all add: handleUndo_def canUndo_def)
  then show "history (addImageToHistory ?u D) = [A, D]"
    by (simp add: addImageToHistory_def Let_def slice_prefix)
  from u show "historyIndex (addImageToHistory ?u D) = 1"
    by (simp add: addImageToHistory_def Let_def slice_prefix)
  from u show "\<not> canRedo (addImageToHistory ?u D)"
    by (simp add: canRedo_def addImageToHistory_def Let_def slice_prefix)
qed

theorem append_truncates_redo_branch_witness:
  "hist_inv three_snapshots \<and> history three_snapshots \<noteq> []
   \<and> history (addImageToHistory (handleUndo three_snapshots) (snapshot ''D''))
       = [snapshot ''A'', snapshot ''B'', snapshot ''D'']
   \<and> historyIndex (addImageToHistory (handleUndo three_snapshots) (snapshot ''D'')) = 2
   \<and> history (addImageToHistory (handleUndo (handleUndo three_snapshots)) (snapshot ''D''))
       = [snapshot ''A'', snapshot ''D'']
   \<and> historyIndex (addImageToHistory (handleUndo (handleUndo three_snapshots)) (snapshot ''D'')) = 1
   \<and> \<not> canRedo (addImageToHistory (handleUndo (handleUndo three_snapshots)) (snapshot ''D''))"
proof -
  have u: "hist_inv (handleUndo three_snapshots) \<and> history (handleUndo three_snapshots) \<noteq> []"
    by (simp add: hist_inv_def handleUndo_def canUndo_def three_snapshots_def initial_def)
  have t: "history three_snapshots = [snapshot ''A'', snapshot ''B'', snapshot ''C'']
      \<and> historyIndex three_snapshots = 2"
    by (simp add: three_snapshots_def initial_def)
  have v: "history (handleUndo three_snapshots) = [snapshot ''A'', snapshot ''B'', snapshot ''C'']"
     "historyIndex (handleUndo three_snapshots) = 1"
    by (simp_all add: handleUndo_def canUndo_def three_snapshots_def initial_def)
  show ?thesis
    using append_truncates_redo_branch [of "handleUndo three_snapshots" "snapshot ''D''"
        three_snapshots "snapshot ''A''" "snapshot ''B''" "snapshot ''C''" "snapshot ''D''"]
      u t three_snapshots_inv
    by (simp add: v)
qed


subsection \<open>The invariant\<close>

lemma handleUndo_inv: "hist_inv s \<Longrightarrow> hist_inv (handleUndo s)"
  by (auto simp: hist_inv_def handleUndo_def canUndo_def)
lemma handleRedo_inv: "hist_inv s \<Longrightarrow> hist_inv (handleRedo s)"
  by (auto simp: hist_inv_def handleRedo_def canRedo_def)
lemma handleReset_inv: "hist_inv s \<Longrightarrow> hist_inv (handleReset s)"
  by (auto simp: hist_inv_def handleReset_def)
lemma handleUploadNew_inv: "hist_inv (handleUploadNew s)"
  by (auto simp: hist_inv_def handleUploadNew_def)
lemma handleImageUpload_inv: "hist_inv (handleImageUpload s f)"
  by (auto simp: hist_inv_def handleImageUpload_def)
lemma handleFileSelect_inv: "hist_inv s \<Longrightarrow> hist_inv (handleFileSelect s fs)"
  by (auto simp: handleFileSelect_def handleImageUpload_inv split: option.splits list.splits)

lemma hist_inv_frame [simp]:
  "hist_inv (s\<lparr>isLoading := b\<rparr>) = hist_inv s"
  "hist_inv (s\<lparr>error := er\<rparr>) = hist_inv s"
  "hist_inv (s\<lparr>editHotspot := h\<rparr>) = hist_inv s"
  "hist_inv (s\<lparr>displayHotspot := h\<rparr>) = hist_inv s"
  "hist_inv (s\<lparr>chatHistory := ch\<rparr>) = hist_inv s"
  "hist_inv (s\<lparr>hasInitialAnalysisRun := b\<rparr>) = hist_inv s"
  by (simp_all add: hist_inv_def)

lemma handleGenerate_inv: "hist_inv s \<Longrightarrow> hist_inv (handleGenerate e s)"
  by (simp add: handleGenerate_def Let_def addImageToHistory_inv split: option.splits sum.splits)

lemma handleGenerateFill_inv: "hist_inv s \<Longrightarrow> hist_inv (handleGenerateFill e s p)"
  by (simp add: handleGenerateFill_def Let_def addImageToHistory_inv
      split: option.splits sum.splits list.splits)

lemma handleApplyStyle_inv: "hist_inv s \<Longrightarrow> hist_inv (handleApplyStyle e s p)"
  by (simp add: handleApplyStyle_def Let_def addImageToHistory_inv split: option.splits sum.splits)

lemma handleApplyAdjustment_inv: "hist_inv s \<Longrightarrow> hist_inv (handleApplyAdjustment e s p)"
  by (simp add: handleApplyAdjustment_def Let_def addImageToHistory_inv split: option.splits sum.splits)

lemma handleApplyCrop_inv: "hist_inv s \<Longrightarrow> handleApplyCrop e s = Inr s' \<Longrightarrow> hist_inv s'"
  by (auto simp: handleApplyCrop_def Let_def and_then_def addImageToHistory_inv
      split: option.splits sum.splits if_splits)

lemma handleSendMessage_inv: "hist_inv s \<Longrightarrow> hist_inv (handleSendMessage e s m)"
  by (simp add: handleSendMessage_def Let_def split: option.splits sum.splits)

lemma triggerInitialAnalysis_inv: "hist_inv s \<Longrightarrow> hist_inv (triggerInitialAnalysis e s)"
  by (simp add: triggerInitialAnalysis_def handleSendMessage_inv)

lemma handleImageClick_inv: "hist_inv s \<Longrightarrow> hist_inv (handleImageClick s ev)"
  by (simp add: handleImageClick_def Let_def)

lemma handle_inv: "hist_inv s \<Longrightarrow> hist_inv (handle e s ev)"
  by (cases ev)
     (auto simp: handleFileSelect_inv handleImageUpload_inv addImageToHistory_inv
        handleGenerate_inv handleGenerateFill_inv handleApplyStyle_inv handleApplyAdjustment_inv
        handleSendMessage_inv triggerInitialAnalysis_inv handleUndo_inv handleRedo_inv
        handleReset_inv handleUploadNew_inv handleImageClick_inv
        dest: handleApplyCrop_inv split: sum.splits)

lemma initial_inv: "hist_inv initial"
  by (simp add: hist_inv_def initial_def)

lemma run_inv: "hist_inv s \<Longrightarrow> hist_inv (run s evs)"
  by (induction s evs rule: run.induct) (simp_all add: handle_inv)

subsection \<open>Evaluating the example session\<close>

lemma uploaded_simps:
  "history uploaded = [snapshot ''I0'']" "historyIndex uploaded = 0"
  by (simp_all add: uploaded_def handleImageUpload_def initial_def)

lemma split_not_Nil: "split sep s \<noteq> []"
  by (induction s) (auto split: list.splits)

lemma png_decodes:
  "dataURLtoFile Inr (''data:image/png;base64,'' @ payload) n
     = Inr \<lparr>bits = hd (split CHR '','' payload), name = n, mime_type = ''image/png''\<rparr>"
  using split_not_Nil [of "CHR '',''" payload]
  by (cases "split CHR '','' payload") (simp_all add: dataURLtoFile_def is_line_terminator_def)

subsection \<open>Every operation keeps the invariant\<close>

text \<open>
  Claim C2. The freshly mounted state satisfies \<open>-1 \<le> cursor < length\<close> with the cursor
  \<open>-1\<close> exactly on the empty history, and every event of a session (upload, append, each
  edit, undo, redo, reset, the teardown for a new upload) keeps it, alone or in a run.
\<close>

theorem history_invariant_preserved:
  "hist_inv initial
   \<and> (hist_inv s \<longrightarrow> hist_inv (handle e s ev))
   \<and> (hist_inv s \<longrightarrow> hist_inv (run s evs))"
  by (simp add: initial_inv handle_inv run_inv)

theorem history_invariant_preserved_witness:
  "hist_inv uploaded
   \<and> length (history (handle stub_env uploaded (ApplyStyle ''sepia''))) = 2
   \<and> hist_inv (handle stub_env uploaded (ApplyStyle ''sepia''))
   \<and> hist_inv (run uploaded [(stub_env, ApplyStyle ''sepia''), (stub_env, Undo),
        (failing_env, ApplyAdjustment ''warmer''), (stub_env, Redo), (stub_env, Reset),
        (stub_env, UploadNew)])"
proof -
  have u: "hist_inv uploaded"
    by (simp add: hist_inv_def uploaded_simps)
  have l: "length (history (handle stub_env uploaded (ApplyStyle ''sepia''))) = 2"
    using png_decodes [of "''U1RZTEU=''"]
    by (simp add: handleApplyStyle_def currentImage_def at_index_def uploaded_simps Let_def
        and_then_def stub_env_def addImageToHistory_def slice_def)
  show ?thesis
    using history_invariant_preserved [of uploaded stub_env "ApplyStyle ''sepia''"
        "[(stub_env, ApplyStyle ''sepia''), (stub_env, Undo),
        (failing_env, ApplyAdjustment ''warmer''), (stub_env, Redo), (stub_env, Reset),
        (stub_env, UploadNew)]"] u l
    by blast
qed

subsection \<open>Operations on the empty history\<close>

lemma empty_no_current: "history s = [] \<Longrightarrow> currentImage s = None"
  by (simp add: currentImage_def at_index_def)

text \<open>
  Claim C3, as the claim states it, fails for append: \<open>addImageToHistory\<close> has no check of its
  own, and on the empty history it stores the buffer.
\<close>

theorem append_on_empty_history:
  "\<not> (history (addImageToHistory initial (snapshot ''A'')) = []
      \<and> historyIndex (addImageToHistory initial (snapshot ''A'')) = - 1)"
  by (simp add: addImageToHistory_def initial_def slice_def)

text \<open>
  Claim C3, amended. On the empty history (cursor \<open>-1\<close>) undo, redo and reset leave the whole
  state as it is, and the handlers that commit an edit (retouch, fill, style, adjustment)
  leave the sequence empty and the cursor \<open>-1\<close>: each checks for a current image before it
  calls \<open>addImageToHistory\<close>. \<open>addImageToHistory\<close> itself, called on the empty history, makes
  the buffer the only entry, with cursor 0.
\<close>

theorem empty_history_operations:
  "history s = [] \<and> historyIndex s = - 1 \<longrightarrow>
     handleUndo s = s \<and> handleRedo s = s \<and> handleReset s = s
     \<and> history (handleGenerate e s) = [] \<and> historyIndex (handleGenerate e s) = - 1
     \<and> history (handleGenerateFill e s p) = [] \<and> historyIndex (handleGenerateFill e s p) = - 1
     \<and> history (handleApplyStyle e s p) = [] \<and> historyIndex (handleApplyStyle e s p) = - 1
     \<and> history (handleApplyAdjustment e s p) = [] \<and> historyIndex (handleApplyAdjustment e s p) = - 1
     \<and> history (addImageToHistory s b) = [b] \<and> historyIndex (addImageToHistory s b) = 0"
  by (auto simp: handleUndo_def handleRedo_def handleReset_def canUndo_def canRedo_def
      handleGenerate_def handleGenerateFill_def handleApplyStyle_def handleApplyAdjustment_def
      empty_no_current addImageToHistory_def slice_def)

theorem empty_history_operations_witness:
  "history initial = [] \<and> historyIndex initial = - 1
   \<and> handleUndo initial = initial \<and> handleRedo initial = initial \<and> handleReset initial = initial
   \<and> history (handleApplyStyle stub_env initial ''sepia'') = []
   \<and> historyIndex (handleApplyStyle stub_env initial ''sepia'') = - 1
   \<and> error (handleApplyStyle stub_env initial ''sepia'') = Some ''No image loaded to apply a style to.''
   \<and> history (addImageToHistory initial (snapshot ''A'')) = [snapshot ''A'']"
proof -
  have i: "history initial = [] \<and> historyIndex initial = - 1"
    by (simp add: initial_def)
  have e: "error (handleApplyStyle stub_env initial ''sepia'') = Some ''No image loaded to apply a style to.''"
    by (simp add: handleApplyStyle_def empty_no_current i)
  show ?thesis
    using empty_history_operations [of initial stub_env "''sepia''" "snapshot ''A''"] i e
    by simp
qed

section \<open>Selection state\<close>

subsection \<open>The handlers on the example session\<close>

lemma stub_decodes:
  "dataURLtoFile Inr ''data:image/png;base64,UkVE'' n
     = Inr \<lparr>bits = ''UkVE'', name = n, mime_type = ''image/png''\<rparr>"
  "dataURLtoFile Inr ''data:image/png;base64,RklMTA=='' n
     = Inr \<lparr>bits = ''RklMTA=='', name = n, mime_type = ''image/png''\<rparr>"
  "dataURLtoFile Inr ''data:image/png;base64,U1RZTEU='' n
     = Inr \<lparr>bits = ''U1RZTEU='', name = n, mime_type = ''image/png''\<rparr>"
  "dataURLtoFile Inr ''data:image/png;base64,QURK'' n
     = Inr \<lparr>bits = ''QURK'', name = n, mime_type = ''image/png''\<rparr>"
  "dataURLtoFile Inr ''data:image/png;base64,Q1JPUA=='' n
     = Inr \<lparr>bits = ''Q1JPUA=='', name = n, mime_type = ''image/png''\<rparr>"
  "dataURLtoFile Inr ''data:image/png;base64,TUFTSw=='' n
     = Inr \<lparr>bits = ''TUFTSw=='', name = n, mime_type = ''image/png''\<rparr>"
  using png_decodes [of "''UkVE''" n] png_decodes [of "''RklMTA==''" n]
    png_decodes [of "''U1RZTEU=''" n] png_decodes [of "''QURK''" n]
    png_decodes [of "''Q1JPUA==''" n] png_decodes [of "''TUFTSw==''" n]
  by simp_all

lemma selecting_current: "currentImage selecting = Some (snapshot ''I0'')"
  by (simp add: currentImage_def at_index_def selecting_def uploaded_simps)

lemma selecting_simps:
  "history selecting = [snapshot ''I0'']" "historyIndex selecting = 0"
  "prompt selecting = ''make it red''"
  "editHotspot selecting = Some (Num 200, Num 300)"
  "displayHotspot selecting = Some (Num 100, Num 150)"
  "maskDataUrl selecting = Some ''data:image/png;base64,TUFTSw==''"
  "completedCrop selecting = Some \<lparr>crop_x = 50, crop_y = 50, crop_width = 100, crop_height = 80, unit = Px\<rparr>"
  by (simp_all add: selecting_def uploaded_simps)

lemma stub_env_simps:
  "atob stub_env = Inr" "getContext2d stub_env" "devicePixelRatio stub_env = Num 2"
  "imgRef stub_env = Some shown_image"
  "toDataURL stub_env c = ''data:image/png;base64,Q1JPUA==''"
  "generateEditedImage stub_env f p h = Inr ''data:image/png;base64,UkVE''"
  "generateInpaintedImage stub_env f m p = Inr ''data:image/png;base64,RklMTA==''"
  "generateStyledImage stub_env f p = Inr ''data:image/png;base64,U1RZTEU=''"
  "generateAdjustedImage stub_env f p = Inr ''data:image/png;base64,QURK''"
  by (simp_all add: stub_env_def fun_eq_iff)

lemma prompt_not_blank: "trim ''make it red'' \<noteq> []"
  by (simp add: trim_def is_white_space_def)

lemma style_applied:
  "handleApplyStyle stub_env selecting p =
     (addImageToHistory (selecting\<lparr>isLoading := True, error := None\<rparr>)
        \<lparr>bits = ''U1RZTEU='', name = ''styled-'' @ show_nat (now stub_env) @ ''.png'',
         mime_type = ''image/png''\<rparr>)\<lparr>isLoading := False\<rparr>"
  by (simp add: handleApplyStyle_def selecting_current Let_def and_then_def stub_env_simps stub_decodes)

lemma adjustment_applied:
  "handleApplyAdjustment stub_env selecting p =
     (addImageToHistory (selecting\<lparr>isLoading := True, error := None\<rparr>)
        \<lparr>bits = ''QURK'', name = ''adjusted-'' @ show_nat (now stub_env) @ ''.png'',
         mime_type = ''image/png''\<rparr>)\<lparr>isLoading := False\<rparr>"
  by (simp add: handleApplyAdjustment_def selecting_current Let_def and_then_def stub_env_simps stub_decodes)

lemma fill_applied:
  "handleGenerateFill stub_env selecting p =
     (addImageToHistory (selecting\<lparr>isLoading := True, error := None\<rparr>)
        \<lparr>bits = ''RklMTA=='', name = ''filled-'' @ show_nat (now stub_env) @ ''.png'',
         mime_type = ''image/png''\<rparr>)\<lparr>isLoading := False\<rparr>"
  by (simp add: handleGenerateFill_def selecting_current selecting_simps Let_def and_then_def
      stub_env_simps stub_decodes)

lemma retouch_applied:
  "handleGenerate stub_env selecting =
     (addImageToHistory (selecting\<lparr>isLoading := True, error := None\<rparr>)
        \<lparr>bits = ''UkVE'', name = ''edited-'' @ show_nat (now stub_env) @ ''.png'',
         mime_type = ''image/png''\<rparr>)\<lparr>editHotspot := None, displayHotspot := None, isLoading := False\<rparr>"
  by (simp add: handleGenerate_def selecting_current selecting_simps prompt_not_blank Let_def
      and_then_def stub_env_simps stub_decodes)

lemma crop_applied:
  "handleApplyCrop stub_env selecting =
     Inr (addImageToHistory selecting
        \<lparr>bits = ''Q1JPUA=='', name = ''cropped-'' @ show_nat (now stub_env) @ ''.png'',
         mime_type = ''image/png''\<rparr>)"
  by (simp add: handleApplyCrop_def selecting_simps Let_def and_then_def stub_env_simps stub_decodes)

lemma cropping_simps:
  "history cropping = [snapshot ''A'', snapshot ''B'', snapshot ''C'']" "historyIndex cropping = 1"
  "crop cropping = Some \<lparr>crop_x = 50, crop_y = 50, crop_width = 100, crop_height = 80, unit = Px\<rparr>"
  "editHotspot cropping = Some (Num 200, Num 300)"
  by (simp_all add: cropping_def three_snapshots_def initial_def)

subsection \<open>What success looks like\<close>

lemma addImageToHistory_clears: "commit_cleared (addImageToHistory s f)"
  by (cases "maskCanvasRef s")
     (simp_all add: commit_cleared_def paint_mask_cleared_def canvas_blank_def clearMask_def
        addImageToHistory_def Let_def)

lemma commit_cleared_frame [simp]:
  "commit_cleared (s\<lparr>isLoading := b\<rparr>) = commit_cleared s"
  "commit_cleared (s\<lparr>editHotspot := h\<rparr>) = commit_cleared s"
  "commit_cleared (s\<lparr>displayHotspot := h\<rparr>) = commit_cleared s"
  by (simp_all add: commit_cleared_def paint_mask_cleared_def canvas_blank_def)

lemma handleReset_clears:
  "history s \<noteq> [] \<Longrightarrow> hotspots_cleared (handleReset s) \<and> paint_mask_cleared (handleReset s)"
  by (cases "maskCanvasRef s")
     (simp_all add: hotspots_cleared_def paint_mask_cleared_def canvas_blank_def clearMask_def
        handleReset_def)

lemma handleGenerate_success:
  "error (handleGenerate e s) = None \<Longrightarrow>
   \<exists>f. handleGenerate e s =
     (addImageToHistory (s\<lparr>isLoading := True, error := None\<rparr>) f)
       \<lparr>editHotspot := None, displayHotspot := None, isLoading := False\<rparr>"
  by (auto simp: handleGenerate_def Let_def addImageToHistory_def split: option.splits sum.splits if_splits)

lemma handleGenerateFill_success:
  "error (handleGenerateFill e s p) = None \<Longrightarrow>
   \<exists>f. handleGenerateFill e s p =
     (addImageToHistory (s\<lparr>isLoading := True, error := None\<rparr>) f)\<lparr>isLoading := False\<rparr>"
  by (auto simp: handleGenerateFill_def Let_def addImageToHistory_def
      split: option.splits sum.splits list.splits if_splits)

lemma handleApplyStyle_success:
  "error (handleApplyStyle e s p) = None \<Longrightarrow>
   \<exists>f. handleApplyStyle e s p =
     (addImageToHistory (s\<lparr>isLoading := True, error := None\<rparr>) f)\<lparr>isLoading := False\<rparr>"
  by (auto simp: handleApplyStyle_def Let_def addImageToHistory_def split: option.splits sum.splits)

lemma handleApplyAdjustment_success:
  "error (handleApplyAdjustment e s p) = None \<Longrightarrow>
   \<exists>f. handleApplyAdjustment e s p =
     (addImageToHistory (s\<lparr>isLoading := True, error := None\<rparr>) f)\<lparr>isLoading := False\<rparr>"
  by (auto simp: handleApplyAdjustment_def Let_def addImageToHistory_def split: option.splits sum.splits)

lemma handleApplyCrop_success:
  "completedCrop s \<noteq> None \<Longrightarrow> imgRef e \<noteq> None \<Longrightarrow> getContext2d e \<Longrightarrow>
   handleApplyCrop e s = Inr s' \<Longrightarrow> \<exists>f. s' = addImageToHistory s f"
  by (auto simp: handleApplyCrop_def Let_def and_then_def split: sum.splits)

subsection \<open>What is cleared, and when\<close>

text \<open>
  Claim C4, as the claim states it, fails. A style applied with success appends a snapshot
  and leaves both hotspots in place, and an undo that moves the cursor leaves the crop
  rectangle in place.
\<close>

theorem selection_survives_style_and_undo:
  "error (handleApplyStyle stub_env selecting ''sepia'') = None
   \<and> length (history (handleApplyStyle stub_env selecting ''sepia'')) = 2
   \<and> editHotspot (handleApplyStyle stub_env selecting ''sepia'') = Some (Num 200, Num 300)
   \<and> \<not> selection_cleared (handleApplyStyle stub_env selecting ''sepia'')
   \<and> canUndo cropping
   \<and> historyIndex (handleUndo cropping) = 0
   \<and> crop (handleUndo cropping) \<noteq> None
   \<and> \<not> selection_cleared (handleUndo cropping)"
  by (simp add: style_applied addImageToHistory_def selecting_simps slice_def selection_cleared_def
      hotspots_cleared_def canUndo_def handleUndo_def cropping_simps)

text \<open>
  Claim C4, amended. Every append clears the crop rectangle, the completed crop and the
  paint mask (the mask image and the painted canvas), so every successful edit (retouch,
  fill, style, adjustment, crop) does; a successful retouch clears both hotspots as well,
  and so all five pieces. Every undo and redo that moves the cursor clears both hotspots and
  the mask image. Every reset of a non-empty history clears both hotspots and the paint mask
  (the mask image and the painted canvas). An async edit has succeeded when it ends with no
  error recorded.
\<close>

theorem selection_state_cleared:
  "commit_cleared (addImageToHistory s f)
   \<and> (error (handleGenerate e s) = None \<longrightarrow> selection_cleared (handleGenerate e s))
   \<and> (error (handleGenerateFill e s p) = None \<longrightarrow> commit_cleared (handleGenerateFill e s p))
   \<and> (error (handleApplyStyle e s p) = None \<longrightarrow> commit_cleared (handleApplyStyle e s p))
   \<and> (error (handleApplyAdjustment e s p) = None \<longrightarrow> commit_cleared (handleApplyAdjustment e s p))
   \<and> (completedCrop s \<noteq> None \<and> imgRef e \<noteq> None \<and> getContext2d e \<and> handleApplyCrop e s = Inr s'
        \<longrightarrow> commit_cleared s')
   \<and> (canUndo s \<longrightarrow> hotspots_cleared (handleUndo s) \<and> maskDataUrl (handleUndo s) = None)
   \<and> (canRedo s \<longrightarrow> hotspots_cleared (handleRedo s) \<and> maskDataUrl (handleRedo s) = None)
   \<and> (history s \<noteq> [] \<longrightarrow> hotspots_cleared (handleReset s) \<and> paint_mask_cleared (handleReset s))"
proof (intro conjI impI)
  show "commit_cleared (addImageToHistory s f)"
    by (rule addImageToHistory_clears)
next
  assume "error (handleGenerate e s) = None"
  then obtain g where "handleGenerate e s =
     (addImageToHistory (s\<lparr>isLoading := True, error := None\<rparr>) g)
       \<lparr>editHotspot := None, displayHotspot := None, isLoading := False\<rparr>"
    using handleGenerate_success by blast
  then show "selection_cleared (handleGenerate e s)"
    using addImageToHistory_clears [of "s\<lparr>isLoading := True, error := None\<rparr>" g]
    by (simp add: selection_cleared_def commit_cleared_def hotspots_cleared_def
        paint_mask_cleared_def canvas_blank_def)
next
  assume "error (handleGenerateFill e s p) = None"
  then show "commit_cleared (handleGenerateFill e s p)"
    using handleGenerateFill_success [of e s p] by (auto simp: addImageToHistory_clears)
next
  assume "error (handleApplyStyle e s p) = None"
  then show "commit_cleared (handleApplyStyle e s p)"
    using handleApplyStyle_success [of e s p] by (auto simp: addImageToHistory_clears)
next
  assume "error (handleApplyAdjustment e s p) = None"
  then show "commit_cleared (handleApplyAdjustment e s p)"
    using handleApplyAdjustment_success [of e s p] by (auto simp: addImageToHistory_clears)
next
  assume "completedCrop s \<noteq> None \<and> imgRef e \<noteq> None \<and> getContext2d e \<and> handleApplyCrop e s = Inr s'"
  then show "commit_cleared s'"
    using handleApplyCrop_success [of s e s'] by (auto simp: addImageToHistory_clears)
next
  assume "canUndo s"
  then show "hotspots_cleared (handleUndo s)"
    by (simp add: hotspots_cleared_def handleUndo_def)
next
  assume "canUndo s"
  then show "maskDataUrl (handleUndo s) = None"
    by (simp add: handleUndo_def)
next
  assume "canRedo s"
  then show "hotspots_cleared (handleRedo s)"
    by (simp add: hotspots_cleared_def handleRedo_def)
next
  assume "canRedo s"
  then show "maskDataUrl (handleRedo s) = None"
    by (simp add: handleRedo_def)
next
  assume "history s \<noteq> []"
  then show "hotspots_cleared (handleReset s)"
    by (simp add: handleReset_clears)
next
  assume "history s \<noteq> []"
  then show "paint_mask_cleared (handleReset s)"
    by (simp add: handleReset_clears)
qed

theorem selection_state_cleared_witness:
  "error (handleGenerate stub_env selecting) = None
   \<and> selection_cleared (handleGenerate stub_env selecting)
   \<and> error (handleGenerateFill stub_env selecting ''a hat'') = None
   \<and> commit_cleared (handleGenerateFill stub_env selecting ''a hat'')
   \<and> error (handleApplyStyle stub_env selecting ''a hat'') = None
   \<and> commit_cleared (handleApplyStyle stub_env selecting ''a hat'')
   \<and> error (handleApplyAdjustment stub_env selecting ''a hat'') = None
   \<and> commit_cleared (handleApplyAdjustment stub_env selecting ''a hat'')
   \<and> (\<exists>s'. handleApplyCrop stub_env selecting = Inr s' \<and> commit_cleared s')
   \<and> \<not> canvas_blank selecting \<and> \<not> canvas_blank cropping
   \<and> canUndo cropping \<and> hotspots_cleared (handleUndo cropping)
   \<and> maskDataUrl (handleUndo cropping) = None
   \<and> canRedo cropping \<and> hotspots_cleared (handleRedo cropping)
   \<and> maskDataUrl (handleRedo cropping) = None
   \<and> history cropping \<noteq> [] \<and> hotspots_cleared (handleReset cropping)
   \<and> paint_mask_cleared (handleReset cropping)"
proof -
  let ?c = "addImageToHistory selecting
        \<lparr>bits = ''Q1JPUA=='', name = ''cropped-'' @ show_nat (now stub_env) @ ''.png'',
         mime_type = ''image/png''\<rparr>"
  have ok: "error (handleGenerate stub_env selecting) = None"
    "error (handleGenerateFill stub_env selecting ''a hat'') = None"
    "error (handleApplyStyle stub_env selecting ''a hat'') = None"
    "error (handleApplyAdjustment stub_env selecting ''a hat'') = None"
    by (simp_all add: retouch_applied fill_applied style_applied adjustment_applied
        addImageToHistory_def Let_def)
  have pre: "completedCrop selecting \<noteq> None" "imgRef stub_env \<noteq> None" "getContext2d stub_env"
    "handleApplyCrop stub_env selecting = Inr ?c"
    by (simp_all add: selecting_simps stub_env_simps crop_applied)
  have nav: "canUndo cropping" "canRedo cropping" "history cropping \<noteq> []"
    by (simp_all add: canUndo_def canRedo_def cropping_simps)
  from selection_state_cleared [of selecting "snapshot ''D''" stub_env "''a hat''" ?c]
  have "selection_cleared (handleGenerate stub_env selecting)"
    "commit_cleared (handleGenerateFill stub_env selecting ''a hat'')"
    "commit_cleared (handleApplyStyle stub_env selecting ''a hat'')"
    "commit_cleared (handleApplyAdjustment stub_env selecting ''a hat'')"
    "commit_cleared ?c"
    using ok pre by simp_all
  moreover from selection_state_cleared [of cropping "snapshot ''D''" stub_env "''a hat''" ?c]
  have "hotspots_cleared (handleUndo cropping)" "maskDataUrl (handleUndo cropping) = None"
    "hotspots_cleared (handleRedo cropping)" "maskDataUrl (handleRedo cropping) = None"
    "hotspots_cleared (handleReset cropping)" "paint_mask_cleared (handleReset cropping)"
    using nav by simp_all
  moreover have "\<not> canvas_blank selecting" "\<not> canvas_blank cropping"
    by (simp_all add: canvas_blank_def selecting_def cropping_def)
  ultimately show ?thesis
    using ok pre nav by simp
qed

section \<open>Reset\<close>





section \<open>Failing collaborators\<close>

subsection \<open>A rejected call\<close>

lemma handleGenerate_rejected:
  "currentImage s = Some img \<Longrightarrow> trim (prompt s) \<noteq> [] \<Longrightarrow> editHotspot s = Some h \<Longrightarrow>
   generateEditedImage e img (prompt s) h = Inl t \<Longrightarrow>
   handleGenerate e s
     = s\<lparr>isLoading := False, error := Some (''Failed to generate the image. '' @ errorMessage t)\<rparr>"
  by (simp add: handleGenerate_def Let_def and_then_def)

lemma handleGenerateFill_rejected:
  "currentImage s = Some img \<Longrightarrow> maskDataUrl s = Some m \<Longrightarrow> m \<noteq> [] \<Longrightarrow>
   dataURLtoFile (atob e) m ''mask.png'' = Inr maskFile \<Longrightarrow>
   generateInpaintedImage e img maskFile p = Inl t \<Longrightarrow>
   handleGenerateFill e s p
     = s\<lparr>isLoading := False, error := Some (''Failed to generate the filled image. '' @ errorMessage t)\<rparr>"
  by (cases m) (simp_all add: handleGenerateFill_def Let_def and_then_def)

lemma handleApplyStyle_rejected:
  "currentImage s = Some img \<Longrightarrow> generateStyledImage e img p = Inl t \<Longrightarrow>
   handleApplyStyle e s p
     = s\<lparr>isLoading := False, error := Some (''Failed to apply the style. '' @ errorMessage t)\<rparr>"
  by (simp add: handleApplyStyle_def Let_def and_then_def)

lemma handleApplyAdjustment_rejected:
  "currentImage s = Some img \<Longrightarrow> generateAdjustedImage e img p = Inl t \<Longrightarrow>
   handleApplyAdjustment e s p
     = s\<lparr>isLoading := False, error := Some (''Failed to apply the adjustment. '' @ errorMessage t)\<rparr>"
  by (simp add: handleApplyAdjustment_def Let_def and_then_def)

lemma modelTurn_rejected: "getDrawingAnalysis e h = Inl t \<Longrightarrow> modelTurn e h = Inl t"
  by (simp add: modelTurn_def and_then_def)

lemma handleSendMessage_rejected:
  "currentImage s = Some img \<Longrightarrow>
   (chatHistory s = [] \<longrightarrow> fileToPart e img = Inr imagePart) \<Longrightarrow>
   modelTurn e (chatHistory s @
      [\<lparr>role = User, parts = (if chatHistory s = [] then [imagePart] else []) @ [Text m]\<rparr>]) = Inl t \<Longrightarrow>
   handleSendMessage e s m
     = s\<lparr>isLoading := False, error := Some (''Failed to get analysis. '' @ errorMessage t)\<rparr>"
  by (cases "chatHistory s = []")
     (simp_all add: handleSendMessage_def Let_def and_then_def slice_drop_last)

lemma handleSendMessage_part_rejected:
  "currentImage s = Some img \<Longrightarrow> chatHistory s = [] \<Longrightarrow> fileToPart e img = Inl t \<Longrightarrow>
   handleSendMessage e s m
     = s\<lparr>isLoading := False, error := Some (''Could not process image for analysis. '' @ errorMessage t)\<rparr>"
  by (simp add: handleSendMessage_def Let_def and_then_def)

lemma handleSendMessage_history:
  "history (handleSendMessage e s m) = history s \<and> historyIndex (handleSendMessage e s m) = historyIndex s"
  by (simp add: handleSendMessage_def Let_def split: option.splits sum.splits)

lemma failure_keeps_history:
  "error (handleGenerate e s) \<noteq> None \<Longrightarrow>
     history (handleGenerate e s) = history s \<and> historyIndex (handleGenerate e s) = historyIndex s"
  "error (handleGenerateFill e s p) \<noteq> None \<Longrightarrow>
     history (handleGenerateFill e s p) = history s \<and> historyIndex (handleGenerateFill e s p) = historyIndex s"
  "error (handleApplyStyle e s p) \<noteq> None \<Longrightarrow>
     history (handleApplyStyle e s p) = history s \<and> historyIndex (handleApplyStyle e s p) = historyIndex s"
  "error (handleApplyAdjustment e s p) \<noteq> None \<Longrightarrow>
     history (handleApplyAdjustment e s p) = history s \<and> historyIndex (handleApplyAdjustment e s p) = historyIndex s"
  by (auto simp: handleGenerate_def handleGenerateFill_def handleApplyStyle_def
      handleApplyAdjustment_def Let_def addImageToHistory_def
      split: option.splits sum.splits list.splits if_splits)


lemma failing_env_simps:
  "atob failing_env = Inr"
  "generateEditedImage failing_env f p h = Inl (Error ''quota exceeded'')"
  "generateInpaintedImage failing_env f k p = Inl (Error ''quota exceeded'')"
  "generateStyledImage failing_env f p = Inl NotAnError"
  "generateAdjustedImage failing_env f p = Inl (Error ''quota exceeded'')"
  "fileToPart failing_env f = Inr (InlineData (mime_type f) (bits f))"
  "getDrawingAnalysis failing_env c = Inl (Error ''quota exceeded'')"
  by (simp_all add: failing_env_def stub_env_def fun_eq_iff)

lemma analysed_simps:
  "history analysed = [snapshot ''A'', snapshot ''B'', snapshot ''C'']"
  "historyIndex analysed = 2"
  "currentImage analysed = Some (snapshot ''C'')"
  "chatHistory analysed = [\<lparr>role = User, parts = [Text ''What can I improve?'']\<rparr>,
                     \<lparr>role = Model, parts = [Text ''The shading.'']\<rparr>]"
  by (simp_all add: analysed_def three_snapshots_def initial_def currentImage_def at_index_def)

subsection \<open>Failure leaves the history alone\<close>

text \<open>
  Claim C9. When the collaborator of an edit (retouch, fill, style, adjustment) rejects, the
  handler records a message that ends with the reason and leaves the sequence of snapshots
  and the cursor as they were. When the analysis collaborator rejects, or its answer is
  blocked or empty, or the image cannot be prepared for it, the same holds and the
  conversation is again what it was before the question: the user's turn that was just added
  is taken back. More generally an edit that ends with an error recorded, whatever the
  cause, has not touched the history.
\<close>

theorem collaborator_failure_keeps_history:
  "(currentImage s = Some img \<and> trim (prompt s) \<noteq> [] \<and> editHotspot s = Some h
      \<and> generateEditedImage e img (prompt s) h = Inl t \<longrightarrow>
      error (handleGenerate e s) = Some (''Failed to generate the image. '' @ errorMessage t)
      \<and> history (handleGenerate e s) = history s
      \<and> historyIndex (handleGenerate e s) = historyIndex s)
   \<and> (currentImage s = Some img \<and> maskDataUrl s = Some url \<and> url \<noteq> []
      \<and> dataURLtoFile (atob e) url ''mask.png'' = Inr maskFile
      \<and> generateInpaintedImage e img maskFile p = Inl t \<longrightarrow>
      error (handleGenerateFill e s p) = Some (''Failed to generate the filled image. '' @ errorMessage t)
      \<and> history (handleGenerateFill e s p) = history s
      \<and> historyIndex (handleGenerateFill e s p) = historyIndex s)
   \<and> (currentImage s = Some img \<and> generateStyledImage e img p = Inl t \<longrightarrow>
      error (handleApplyStyle e s p) = Some (''Failed to apply the style. '' @ errorMessage t)
      \<and> history (handleApplyStyle e s p) = history s
      \<and> historyIndex (handleApplyStyle e s p) = historyIndex s)
   \<and> (currentImage s = Some img \<and> generateAdjustedImage e img p = Inl t \<longrightarrow>
      error (handleApplyAdjustment e s p) = Some (''Failed to apply the adjustment. '' @ errorMessage t)
      \<and> history (handleApplyAdjustment e s p) = history s
      \<and> historyIndex (handleApplyAdjustment e s p) = historyIndex s)
   \<and> (currentImage s = Some img \<and> (chatHistory s = [] \<longrightarrow> fileToPart e img = Inr imagePart)
      \<and> getDrawingAnalysis e (chatHistory s @
           [\<lparr>role = User, parts = (if chatHistory s = [] then [imagePart] else []) @ [Text m]\<rparr>]) = Inl t
      \<longrightarrow>
      error (handleSendMessage e s m) = Some (''Failed to get analysis. '' @ errorMessage t)
      \<and> chatHistory (handleSendMessage e s m) = chatHistory s
      \<and> history (handleSendMessage e s m) = history s
      \<and> historyIndex (handleSendMessage e s m) = historyIndex s)
   \<and> (currentImage s = Some img \<and> (chatHistory s = [] \<longrightarrow> fileToPart e img = Inr imagePart)
      \<and> modelTurn e (chatHistory s @
           [\<lparr>role = User, parts = (if chatHistory s = [] then [imagePart] else []) @ [Text m]\<rparr>]) = Inl t
      \<longrightarrow>
      error (handleSendMessage e s m) = Some (''Failed to get analysis. '' @ errorMessage t)
      \<and> chatHistory (handleSendMessage e s m) = chatHistory s
      \<and> history (handleSendMessage e s m) = history s
      \<and> historyIndex (handleSendMessage e s m) = historyIndex s)
   \<and> (currentImage s = Some img \<and> chatHistory s = [] \<and> fileToPart e img = Inl t \<longrightarrow>
      error (handleSendMessage e s m) = Some (''Could not process image for analysis. '' @ errorMessage t)
      \<and> chatHistory (handleSendMessage e s m) = chatHistory s
      \<and> history (handleSendMessage e s m) = history s
      \<and> historyIndex (handleSendMessage e s m) = historyIndex s)
   \<and> (error (handleGenerate e s) \<noteq> None \<longrightarrow>
      history (handleGenerate e s) = history s
      \<and> historyIndex (handleGenerate e s) = historyIndex s)
   \<and> (error (handleGenerateFill e s p) \<noteq> None \<longrightarrow>
      history (handleGenerateFill e s p) = history s
      \<and> historyIndex (handleGenerateFill e s p) = historyIndex s)
   \<and> (error (handleApplyStyle e s p) \<noteq> None \<longrightarrow>
      history (handleApplyStyle e s p) = history s
      \<and> historyIndex (handleApplyStyle e s p) = historyIndex s)
   \<and> (error (handleApplyAdjustment e s p) \<noteq> None \<longrightarrow>
      history (handleApplyAdjustment e s p) = history s
      \<and> historyIndex (handleApplyAdjustment e s p) = historyIndex s)"
proof -
  have generate: "currentImage s = Some img \<and> trim (prompt s) \<noteq> [] \<and> editHotspot s = Some h
      \<and> generateEditedImage e img (prompt s) h = Inl t \<longrightarrow>
      error (handleGenerate e s) = Some (''Failed to generate the image. '' @ errorMessage t)
      \<and> history (handleGenerate e s) = history s
      \<and> historyIndex (handleGenerate e s) = historyIndex s"
    by (auto simp: handleGenerate_rejected)
  have fill: "currentImage s = Some img \<and> maskDataUrl s = Some url \<and> url \<noteq> []
      \<and> dataURLtoFile (atob e) url ''mask.png'' = Inr maskFile
      \<and> generateInpaintedImage e img maskFile p = Inl t \<longrightarrow>
      error (handleGenerateFill e s p) = Some (''Failed to generate the filled image. '' @ errorMessage t)
      \<and> history (handleGenerateFill e s p) = history s
      \<and> historyIndex (handleGenerateFill e s p) = historyIndex s"
    by (auto simp: handleGenerateFill_rejected)
  have style: "currentImage s = Some img \<and> generateStyledImage e img p = Inl t \<longrightarrow>
      error (handleApplyStyle e s p) = Some (''Failed to apply the style. '' @ errorMessage t)
      \<and> history (handleApplyStyle e s p) = history s
      \<and> historyIndex (handleApplyStyle e s p) = historyIndex s"
    by (auto simp: handleApplyStyle_rejected)
  have adjust: "currentImage s = Some img \<and> generateAdjustedImage e img p = Inl t \<longrightarrow>
      error (handleApplyAdjustment e s p) = Some (''Failed to apply the adjustment. '' @ errorMessage t)
      \<and> history (handleApplyAdjustment e s p) = history s
      \<and> historyIndex (handleApplyAdjustment e s p) = historyIndex s"
    by (auto simp: handleApplyAdjustment_rejected)
  have turn: "currentImage s = Some img \<and> (chatHistory s = [] \<longrightarrow> fileToPart e img = Inr imagePart)
      \<and> modelTurn e (chatHistory s @
           [\<lparr>role = User, parts = (if chatHistory s = [] then [imagePart] else []) @ [Text m]\<rparr>]) = Inl t
      \<longrightarrow>
      error (handleSendMessage e s m) = Some (''Failed to get analysis. '' @ errorMessage t)
      \<and> chatHistory (handleSendMessage e s m) = chatHistory s
      \<and> history (handleSendMessage e s m) = history s
      \<and> historyIndex (handleSendMessage e s m) = historyIndex s"
    using handleSendMessage_rejected [of s img e imagePart m t] by auto
  have analysis: "currentImage s = Some img \<and> (chatHistory s = [] \<longrightarrow> fileToPart e img = Inr imagePart)
      \<and> getDrawingAnalysis e (chatHistory s @
           [\<lparr>role = User, parts = (if chatHistory s = [] then [imagePart] else []) @ [Text m]\<rparr>]) = Inl t
      \<longrightarrow>
      error (handleSendMessage e s m) = Some (''Failed to get analysis. '' @ errorMessage t)
      \<and> chatHistory (handleSendMessage e s m) = chatHistory s
      \<and> history (handleSendMessage e s m) = history s
      \<and> historyIndex (handleSendMessage e s m) = historyIndex s"
    using turn modelTurn_rejected by blast
  have part: "currentImage s = Some img \<and> chatHistory s = [] \<and> fileToPart e img = Inl t \<longrightarrow>
      error (handleSendMessage e s m) = Some (''Could not process image for analysis. '' @ errorMessage t)
      \<and> chatHistory (handleSendMessage e s m) = chatHistory s
      \<and> history (handleSendMessage e s m) = history s
      \<and> historyIndex (handleSendMessage e s m) = historyIndex s"
    by (auto simp: handleSendMessage_part_rejected)
  show ?thesis
    using generate fill style adjust analysis turn part
      failure_keeps_history(1) [of e s] failure_keeps_history(2) [of e s p]
      failure_keeps_history(3) [of e s p] failure_keeps_history(4) [of e s p]
    by blast
qed


theorem collaborator_failure_keeps_history_witness:
  "error (handleGenerate failing_env selecting) = Some ''Failed to generate the image. quota exceeded''
   \<and> history (handleGenerate failing_env selecting) = [snapshot ''I0'']
   \<and> historyIndex (handleGenerate failing_env selecting) = 0
   \<and> error (handleGenerateFill failing_env selecting ''a hat'')
       = Some ''Failed to generate the filled image. quota exceeded''
   \<and> history (handleGenerateFill failing_env selecting ''a hat'') = [snapshot ''I0'']
   \<and> historyIndex (handleGenerateFill failing_env selecting ''a hat'') = 0
   \<and> error (handleApplyStyle failing_env selecting ''a hat'')
       = Some ''Failed to apply the style. An unknown error occurred.''
   \<and> history (handleApplyStyle failing_env selecting ''a hat'') = [snapshot ''I0'']
   \<and> historyIndex (handleApplyStyle failing_env selecting ''a hat'') = 0
   \<and> error (handleApplyAdjustment failing_env selecting ''a hat'')
       = Some ''Failed to apply the adjustment. quota exceeded''
   \<and> history (handleApplyAdjustment failing_env selecting ''a hat'') = [snapshot ''I0'']
   \<and> historyIndex (handleApplyAdjustment failing_env selecting ''a hat'') = 0
   \<and> error (handleSendMessage failing_env analysed ''Why?'') = Some ''Failed to get analysis. quota exceeded''
   \<and> chatHistory (handleSendMessage failing_env analysed ''Why?'')
       = [\<lparr>role = User, parts = [Text ''What can I improve?'']\<rparr>,
          \<lparr>role = Model, parts = [Text ''The shading.'']\<rparr>]
   \<and> history (handleSendMessage failing_env analysed ''Why?'')
       = [snapshot ''A'', snapshot ''B'', snapshot ''C'']
   \<and> historyIndex (handleSendMessage failing_env analysed ''Why?'') = 2
   \<and> error (handleSendMessage (failing_env\<lparr>fileToPart := \<lambda>f. Inl (Error ''unreadable'')\<rparr>) selecting ''Why?'')
       = Some ''Could not process image for analysis. unreadable''
   \<and> chatHistory (handleSendMessage (failing_env\<lparr>fileToPart := \<lambda>f. Inl (Error ''unreadable'')\<rparr>) selecting ''Why?'')
       = []"
proof -
  let ?mask = "\<lparr>bits = ''TUFTSw=='', name = ''mask.png'', mime_type = ''image/png''\<rparr>"
  let ?part = "InlineData ''image/png'' ''I0''"
  let ?unreadable = "failing_env\<lparr>fileToPart := \<lambda>f. Inl (Error ''unreadable'')\<rparr>"
  have chat: "chatHistory selecting = []"
    by (simp add: selecting_def uploaded_def handleImageUpload_def)
  have mask: "dataURLtoFile (atob failing_env) ''data:image/png;base64,TUFTSw=='' ''mask.png'' = Inr ?mask"
    by (simp add: failing_env_simps stub_decodes)
  from collaborator_failure_keeps_history [of selecting "snapshot ''I0''" "(Num 200, Num 300)"
      failing_env "Error ''quota exceeded''" "''data:image/png;base64,TUFTSw==''" ?mask "''a hat''"
      ?part "''Why?''"]
  have quota: "error (handleGenerate failing_env selecting) = Some ''Failed to generate the image. quota exceeded''
     \<and> history (handleGenerate failing_env selecting) = [snapshot ''I0'']
     \<and> historyIndex (handleGenerate failing_env selecting) = 0
     \<and> error (handleGenerateFill failing_env selecting ''a hat'')
       = Some ''Failed to generate the filled image. quota exceeded''
     \<and> history (handleGenerateFill failing_env selecting ''a hat'') = [snapshot ''I0'']
     \<and> historyIndex (handleGenerateFill failing_env selecting ''a hat'') = 0
     \<and> error (handleApplyAdjustment failing_env selecting ''a hat'')
       = Some ''Failed to apply the adjustment. quota exceeded''
     \<and> history (handleApplyAdjustment failing_env selecting ''a hat'') = [snapshot ''I0'']
     \<and> historyIndex (handleApplyAdjustment failing_env selecting ''a hat'') = 0"
    using mask
    by (simp add: selecting_current selecting_simps prompt_not_blank failing_env_simps)
  from collaborator_failure_keeps_history [of selecting "snapshot ''I0''" "(Num 200, Num 300)"
      failing_env NotAnError "''data:image/png;base64,TUFTSw==''" ?mask "''a hat''"
      ?part "''Why?''"]
  have style: "error (handleApplyStyle failing_env selecting ''a hat'')
       = Some ''Failed to apply the style. An unknown error occurred.''
     \<and> history (handleApplyStyle failing_env selecting ''a hat'') = [snapshot ''I0'']
     \<and> historyIndex (handleApplyStyle failing_env selecting ''a hat'') = 0"
    by (simp add: selecting_current selecting_simps failing_env_simps)
  from collaborator_failure_keeps_history [of analysed "snapshot ''C''" "(Num 200, Num 300)"
      failing_env "Error ''quota exceeded''" "''data:image/png;base64,TUFTSw==''" ?mask "''a hat''"
      ?part "''Why?''"]
  have analysis: "error (handleSendMessage failing_env analysed ''Why?'') = Some ''Failed to get analysis. quota exceeded''
     \<and> chatHistory (handleSendMessage failing_env analysed ''Why?'')
       = [\<lparr>role = User, parts = [Text ''What can I improve?'']\<rparr>,
          \<lparr>role = Model, parts = [Text ''The shading.'']\<rparr>]
     \<and> history (handleSendMessage failing_env analysed ''Why?'')
       = [snapshot ''A'', snapshot ''B'', snapshot ''C'']
     \<and> historyIndex (handleSendMessage failing_env analysed ''Why?'') = 2"
    by (simp add: analysed_simps failing_env_simps)
  from collaborator_failure_keeps_history [of selecting "snapshot ''I0''" "(Num 200, Num 300)"
      ?unreadable "Error ''unreadable''" "''data:image/png;base64,TUFTSw==''" ?mask "''a hat''"
      ?part "''Why?''"]
  have part: "error (handleSendMessage ?unreadable selecting ''Why?'')
       = Some ''Could not process image for analysis. unreadable''
     \<and> chatHistory (handleSendMessage ?unreadable selecting ''Why?'') = []"
    by (simp add: selecting_current chat)
  from quota style analysis part show ?thesis
    by simp
qed

section \<open>Binary64 arithmetic\<close>

subsection \<open>The exponent and the rounding\<close>

lemma round_even_of_int [simp]: "round_even (of_int n) = n"
  by (simp add: round_even_def)


lemma expo_bounds:
  assumes "x \<noteq> 0"
  shows "2 powi expo x \<le> \<bar>x\<bar> \<and> \<bar>x\<bar> < 2 powi (expo x + 1)"
proof (cases "1 \<le> \<bar>x\<bar>")
  case True
  let ?n = "\<lfloor>\<bar>x\<bar>\<rfloor>"
  from True have n: "0 < ?n" by linarith
  from bitlen_bounds [OF n] have b: "2 ^ nat (bitlen ?n - 1) \<le> ?n" "?n < 2 ^ nat (bitlen ?n)"
    by simp_all
  from n have bl: "1 \<le> bitlen ?n"
    by (simp add: bitlen_alt_def)
  have e: "expo x = bitlen ?n - 1"
    using True by (simp add: expo_def)
  have "2 powi expo x = (2::real) ^ nat (bitlen ?n - 1)"
    using bl by (simp add: e power_int_nonneg_exp)
  also have "\<dots> = of_int (2 ^ nat (bitlen ?n - 1))" by simp
  also have "\<dots> \<le> of_int ?n" using b(1) by (simp only: of_int_le_iff)
  also have "\<dots> \<le> \<bar>x\<bar>" by simp
  finally have lo: "2 powi expo x \<le> \<bar>x\<bar>" .
  have "?n + 1 \<le> 2 ^ nat (bitlen ?n)" using b(2) by simp
  then have "real_of_int (?n + 1) \<le> of_int (2 ^ nat (bitlen ?n))" by (simp only: of_int_le_iff)
  then have up: "real_of_int ?n + 1 \<le> 2 ^ nat (bitlen ?n)" by simp
  have "\<bar>x\<bar> < real_of_int ?n + 1" by linarith
  with up have "\<bar>x\<bar> < (2::real) ^ nat (bitlen ?n)" by linarith
  also have "\<dots> = 2 powi (expo x + 1)"
    using bl by (simp add: e power_int_nonneg_exp)
  finally show ?thesis using lo by simp
next
  case False
  let ?n = "\<lceil>1 / \<bar>x\<bar>\<rceil>"
  let ?k = "bitlen (?n - 1)"
  from False assms have x: "0 < \<bar>x\<bar>" "\<bar>x\<bar> < 1" by simp_all
  then have inv: "1 < 1 / \<bar>x\<bar>" by simp
  then have n: "0 < ?n - 1" by linarith
  from bitlen_bounds [OF n] have b: "2 ^ nat (?k - 1) \<le> ?n - 1" "?n - 1 < 2 ^ nat ?k"
    by simp_all
  from n have bl: "1 \<le> ?k"
    by (simp add: bitlen_alt_def)
  have e: "expo x = - ?k"
    using False by (simp add: expo_def)
  have "?n \<le> 2 ^ nat ?k" using b(2) by simp
  then have "real_of_int ?n \<le> of_int (2 ^ nat ?k)" by (simp only: of_int_le_iff)
  then have up: "real_of_int ?n \<le> 2 ^ nat ?k" by simp
  have "1 / \<bar>x\<bar> \<le> real_of_int ?n" by (rule le_of_int_ceiling)
  with up have "1 / \<bar>x\<bar> \<le> 2 ^ nat ?k" by linarith
  then have "1 \<le> 2 ^ nat ?k * \<bar>x\<bar>" using x by (simp add: field_simps)
  then have "1 / 2 ^ nat ?k \<le> \<bar>x\<bar>" by (simp add: field_simps)
  moreover have "2 powi expo x = 1 / (2::real) ^ nat ?k"
    using bl by (simp add: e power_int_minus_divide power_int_nonneg_exp)
  ultimately have lo: "2 powi expo x \<le> \<bar>x\<bar>" by simp
  have "real_of_int (2 ^ nat (?k - 1)) \<le> of_int (?n - 1)" using b(1) by (simp only: of_int_le_iff)
  then have dn: "2 ^ nat (?k - 1) \<le> real_of_int ?n - 1" by simp
  have "real_of_int ?n - 1 < 1 / \<bar>x\<bar>" by linarith
  with dn have "2 ^ nat (?k - 1) < 1 / \<bar>x\<bar>" by linarith
  then have "2 ^ nat (?k - 1) * \<bar>x\<bar> < 1" using x by (simp add: field_simps)
  then have "\<bar>x\<bar> < 1 / 2 ^ nat (?k - 1)" by (simp add: field_simps)
  moreover have "2 powi (expo x + 1) = 1 / (2::real) ^ nat (?k - 1)"
  proof -
    have "expo x + 1 = - (?k - 1)" by (simp add: e)
    then have "2 powi (expo x + 1) = 1 / (2::real) powi (?k - 1)"
      by (simp only: power_int_minus_divide)
    also have "(2::real) powi (?k - 1) = 2 ^ nat (?k - 1)"
      using bl by (simp add: power_int_nonneg_exp)
    finally show ?thesis .
  qed
  ultimately show ?thesis using lo by simp
qed


lemma fl64_representable:
  assumes x: "x = of_int m * 2 powi k" and m: "\<bar>m\<bar> < 2 ^ 53" and k: "- 1074 \<le> k"
  shows "fl64 x = x"
proof (cases "x = 0")
  case True
  then show ?thesis by (simp add: fl64_def)
next
  case False
  define j where "j = max (expo x) (- 1022) - 52"
  from expo_bounds [OF False] have lo: "2 powi expo x \<le> \<bar>x\<bar>" by simp
  have "\<bar>x\<bar> = \<bar>of_int m\<bar> * 2 powi k"
    by (simp add: x abs_mult)
  also have "\<dots> < 2 ^ 53 * 2 powi k"
  proof -
    have "real_of_int \<bar>m\<bar> < of_int (2 ^ 53)" using m by (simp only: of_int_less_iff)
    then have "\<bar>real_of_int m\<bar> < 2 ^ 53" by simp
    then show ?thesis by (intro mult_strict_right_mono) simp_all
  qed
  also have "\<dots> = 2 powi (53 + k)"
    by (simp add: power_int_add)
  finally have "2 powi expo x < (2::real) powi (53 + k)" using lo by linarith
  then have "expo x < 53 + k"
    by (metis linorder_not_less one_le_numeral power_int_increasing)
  with k have j: "j \<le> k" by (simp add: j_def)
  have split: "(2::real) powi k = 2 powi (k - j) * 2 powi j"
    by (simp flip: power_int_add)
  have "x / 2 powi j = of_int m * 2 powi (k - j)"
    unfolding x split by simp
  also have "(2::real) powi (k - j) = 2 ^ nat (k - j)"
    using j by (simp add: power_int_nonneg_exp)
  finally have u: "x / 2 powi j = of_int (m * 2 ^ nat (k - j))" by simp
  have "fl64 x = of_int (round_even (x / 2 powi j)) * 2 powi j"
    using False by (simp add: fl64_def Let_def j_def)
  also have "\<dots> = (x / 2 powi j) * 2 powi j"
    unfolding u round_even_of_int ..
  also have "\<dots> = x" by simp
  finally show ?thesis .
qed

lemma fl64_of_int: "\<bar>n\<bar> < 2 ^ 53 \<Longrightarrow> fl64 (of_int n) = of_int n"
  using fl64_representable [of "of_int n" n 0] by simp




subsection \<open>The error of a rounded product\<close>

lemma fl64_nonneg: "0 \<le> x \<Longrightarrow> 0 \<le> fl64 x"
proof -
  assume x: "0 \<le> x"
  have r: "0 \<le> round_even r" if "0 \<le> r" for r
    using that unfolding round_even_def Let_def by (auto simp: zero_le_floor)
  show ?thesis
    using x by (auto simp: fl64_def Let_def intro!: mult_nonneg_nonneg r)
qed



lemma to_double_finite: "\<bar>fl64 x\<bar> < 2 ^ 1024 \<Longrightarrow> to_double x = Num (fl64 x)"
  by (simp add: to_double_def Let_def)





section \<open>Coordinates\<close>

subsection \<open>Clicks on the example images\<close>

lemma uploaded_tab: "activeTab uploaded = Retouch"
  by (simp add: uploaded_def handleImageUpload_def)

lemma click_at_simps:
  "clientX (click_at img x y) = rect_left img + x"
  "clientY (click_at img x y) = rect_top img + y"
  "currentTarget (click_at img x y) = img"
  by (simp_all add: click_at_def)


lemma unlaid_image_simps:
  "naturalWidth unlaid_image = 800" "naturalHeight unlaid_image = 600"
  "clientWidth unlaid_image = 0" "clientHeight unlaid_image = 300"
  "rect_left unlaid_image = 20" "rect_top unlaid_image = 10"
  by (simp_all add: unlaid_image_def shown_image_def)


subsection \<open>From the rendered point to the natural point\<close>


subsection \<open>The hotspot as the engine computes it\<close>



lemma to_double_eval: "fl64 x = v \<Longrightarrow> \<bar>v\<bar> < 2 ^ 1024 \<Longrightarrow> to_double x = Num v"
  by (simp add: to_double_def Let_def)







subsection \<open>An image that has no rendered size\<close>

text \<open>
  Claim C6, as the claim states it, fails: with a rendered width of zero the handler still
  divides, and records a hotspot whose first coordinate is an infinity.
\<close>

theorem zero_width_click_records_a_point:
  "editHotspot (handleImageClick uploaded (click_at unlaid_image 100 150)) = Some (PosInf, Num 300)
   \<and> editHotspot (handleImageClick uploaded (click_at unlaid_image 100 150)) \<noteq> None"
  by (simp add: handleImageClick_def uploaded_tab Let_def click_at_simps unlaid_image_simps)

text \<open>
  Claim C6, amended. If the rendered width or the rendered height of the element is zero, a
  click in retouch mode raises nothing and still records a natural-space point: the
  division by zero gives an infinity or NaN, and the coordinate on that axis is not finite.
  Nothing signals "unavailable".
\<close>

theorem zero_size_click:
  "activeTab s = Retouch
   \<and> (clientWidth (currentTarget ev) = 0 \<or> clientHeight (currentTarget ev) = 0) \<longrightarrow>
     (\<exists>x y. editHotspot (handleImageClick s ev) = Some (x, y)
        \<and> (clientWidth (currentTarget ev) = 0 \<longrightarrow> \<not> finite_num x)
        \<and> (clientHeight (currentTarget ev) = 0 \<longrightarrow> \<not> finite_num y))"
  by (auto simp: handleImageClick_def Let_def)

theorem zero_size_click_witness:
  "activeTab uploaded = Retouch
   \<and> clientWidth (currentTarget (click_at unlaid_image 100 150)) = 0
   \<and> (\<exists>x y. editHotspot (handleImageClick uploaded (click_at unlaid_image 100 150)) = Some (x, y)
        \<and> \<not> finite_num x)"
  using zero_size_click [of uploaded "click_at unlaid_image 100 150"]
  by (auto simp: uploaded_tab click_at_simps unlaid_image_simps)

subsection \<open>There and back\<close>






section \<open>Cropping\<close>

lemma density_kept: "1 \<le> d \<Longrightarrow> js_or (Num d) (Num 1) = Num d"
  by (simp add: js_or_def)

lemma canvas_dimension:
  assumes w: "0 \<le> w" and r: "fl64 (w * d) < 2 ^ 31" and d: "0 \<le> d"
  shows "reflect_dimension fallback (to_unsigned_long (to_double (w * d))) = nat \<lfloor>fl64 (w * d)\<rfloor>"
proof -
  have nn: "0 \<le> fl64 (w * d)"
    using w d by (intro fl64_nonneg) simp
  with r have "\<bar>fl64 (w * d)\<bar> < 2 ^ 1024" by simp
  then have m: "to_double (w * d) = Num (fl64 (w * d))"
    by (rule to_double_finite)
  have f: "0 \<le> \<lfloor>fl64 (w * d)\<rfloor>" "\<lfloor>fl64 (w * d)\<rfloor> < 2147483648"
    using nn r by (simp_all add: floor_less_iff)
  then have "\<lfloor>fl64 (w * d)\<rfloor> mod 2 ^ 32 = \<lfloor>fl64 (w * d)\<rfloor>"
    by simp
  then have u: "to_unsigned_long (Num (fl64 (w * d))) = nat \<lfloor>fl64 (w * d)\<rfloor>"
    using nn by simp
  have "nat \<lfloor>fl64 (w * d)\<rfloor> \<le> 2147483647"
    using f by linarith
  then show ?thesis
    unfolding m u reflect_dimension_def by simp
qed

lemma canvas_dimension_nat:
  assumes p: "w * d = real n" and n: "n < 2 ^ 31" and w: "0 \<le> w" and d: "0 \<le> d"
  shows "reflect_dimension fallback (to_unsigned_long (to_double (w * d))) = n"
proof -
  have "fl64 (real_of_int (int n)) = real_of_int (int n)"
    using n by (intro fl64_of_int) simp
  then have e: "fl64 (w * d) = real n" by (simp add: p)
  have "real n < 2 ^ 31"
    using n by (metis of_nat_less_iff of_nat_numeral of_nat_power)
  with e have "fl64 (w * d) < 2 ^ 31" by simp
  from canvas_dimension [OF w this d] show ?thesis by (simp add: e)
qed

lemma cropCanvas_size:
  "canvas_width (cropCanvas c img p) = reflect_dimension 300 (to_unsigned_long (js_mul64 (Num (crop_width c)) p))"
  "canvas_height (cropCanvas c img p) = reflect_dimension 150 (to_unsigned_long (js_mul64 (Num (crop_height c)) p))"
  by (simp_all add: cropCanvas_def Let_def)

lemma handleApplyCrop_appends:
  "completedCrop s = Some c \<Longrightarrow> imgRef e = Some img \<Longrightarrow> getContext2d e \<Longrightarrow>
   devicePixelRatio e = Num d \<Longrightarrow> 1 \<le> d \<Longrightarrow>
   dataURLtoFile (atob e) (toDataURL e (cropCanvas c img (Num d)))
     (''cropped-'' @ show_nat (now e) @ ''.png'') = Inr f \<Longrightarrow>
   handleApplyCrop e s = Inr (addImageToHistory s f)"
  by (simp add: handleApplyCrop_def Let_def and_then_def density_kept)

lemma append_at_end:
  "historyIndex s = int (length (history s)) - 1 \<Longrightarrow> history (addImageToHistory s f) = history s @ [f]"
  by (simp add: addImageToHistory_def Let_def slice_def)

text \<open>
  Claim C8, as the claim states it, fails: the size of a canvas is an integer. A selection
  101 wide at density 1.5 has the product 151.5, and the canvas is 151 wide.
\<close>

theorem crop_drops_the_fraction:
  "canvas_width (cropCanvas \<lparr>crop_x = 50, crop_y = 50, crop_width = 101, crop_height = 80, unit = Px\<rparr>
      shown_image (js_or (Num (3 / 2)) (Num 1))) = 151
   \<and> real (canvas_width (cropCanvas \<lparr>crop_x = 50, crop_y = 50, crop_width = 101, crop_height = 80, unit = Px\<rparr>
      shown_image (js_or (Num (3 / 2)) (Num 1))))
       \<noteq> crop_width \<lparr>crop_x = 50, crop_y = 50, crop_width = 101, crop_height = 80, unit = Px\<rparr> * (3 / 2)"
proof -
  have "fl64 (303 / 2) = 303 / 2"
    using fl64_representable [of "303 / 2" 303 "- 1"] by (simp add: power_int_minus)
  then have "to_double (303 / 2) = Num (303 / 2)"
    by (rule to_double_eval) simp
  then have "reflect_dimension 300 (to_unsigned_long (to_double (303 / 2))) = 151"
    by (simp add: reflect_dimension_def)
  then show ?thesis
    by (simp add: cropCanvas_size density_kept)
qed

text \<open>
  Claim C8, amended. For a finalized selection of non-negative size and a density
  \<open>d \<ge> 1\<close>, the canvas the crop is drawn on measures the integer part of \<open>width * d\<close> by the
  integer part of \<open>height * d\<close>, the products being rounded to binary64 and below \<open>2 ^ 31\<close>:
  a fraction of a pixel is dropped. Where the products are whole numbers the canvas measures
  exactly \<open>width * d\<close> by \<open>height * d\<close>. The size does not depend on the image, so not on its
  natural size. The selection \<open>(50, 50, 100, 80)\<close> at density 2 gives 200 by 160. When the
  canvas can be drawn on and its encoding decodes, the handler appends exactly that file, and
  a history whose cursor is on its last entry grows by this one entry.
\<close>

theorem crop_output_size:
  "(0 \<le> crop_width c \<and> 0 \<le> crop_height c \<and> 1 \<le> d
      \<and> fl64 (crop_width c * d) < 2 ^ 31 \<and> fl64 (crop_height c * d) < 2 ^ 31 \<longrightarrow>
      canvas_width (cropCanvas c img (js_or (Num d) (Num 1))) = nat \<lfloor>fl64 (crop_width c * d)\<rfloor>
      \<and> canvas_height (cropCanvas c img (js_or (Num d) (Num 1))) = nat \<lfloor>fl64 (crop_height c * d)\<rfloor>)
   \<and> (0 \<le> crop_width c \<and> 0 \<le> crop_height c \<and> 1 \<le> d
      \<and> crop_width c * d = real m \<and> crop_height c * d = real n \<and> m < 2 ^ 31 \<and> n < 2 ^ 31 \<longrightarrow>
      canvas_width (cropCanvas c img (js_or (Num d) (Num 1))) = m
      \<and> canvas_height (cropCanvas c img (js_or (Num d) (Num 1))) = n)
   \<and> canvas_width (cropCanvas c img' p) = canvas_width (cropCanvas c img p)
   \<and> canvas_height (cropCanvas c img' p) = canvas_height (cropCanvas c img p)
   \<and> (crop_x c = 50 \<and> crop_y c = 50 \<and> crop_width c = 100 \<and> crop_height c = 80 \<longrightarrow>
      canvas_width (cropCanvas c img (js_or (Num 2) (Num 1))) = 200
      \<and> canvas_height (cropCanvas c img (js_or (Num 2) (Num 1))) = 160)
   \<and> (completedCrop s = Some c \<and> imgRef e = Some img \<and> getContext2d e
      \<and> devicePixelRatio e = Num d \<and> 1 \<le> d
      \<and> dataURLtoFile (atob e) (toDataURL e (cropCanvas c img (Num d)))
           (''cropped-'' @ show_nat (now e) @ ''.png'') = Inr f \<longrightarrow>
      handleApplyCrop e s = Inr (addImageToHistory s f)
      \<and> (historyIndex s = int (length (history s)) - 1 \<longrightarrow>
           history (addImageToHistory s f) = history s @ [f]))"
proof (intro conjI impI)
  assume a: "0 \<le> crop_width c \<and> 0 \<le> crop_height c \<and> 1 \<le> d
      \<and> fl64 (crop_width c * d) < 2 ^ 31 \<and> fl64 (crop_height c * d) < 2 ^ 31"
  then show "canvas_width (cropCanvas c img (js_or (Num d) (Num 1))) = nat \<lfloor>fl64 (crop_width c * d)\<rfloor>"
    by (simp add: cropCanvas_size density_kept canvas_dimension)
  from a show "canvas_height (cropCanvas c img (js_or (Num d) (Num 1))) = nat \<lfloor>fl64 (crop_height c * d)\<rfloor>"
    by (simp add: cropCanvas_size density_kept canvas_dimension)
next
  assume a: "0 \<le> crop_width c \<and> 0 \<le> crop_height c \<and> 1 \<le> d
      \<and> crop_width c * d = real m \<and> crop_height c * d = real n \<and> m < 2 ^ 31 \<and> n < 2 ^ 31"
  then show "canvas_width (cropCanvas c img (js_or (Num d) (Num 1))) = m"
    using canvas_dimension_nat [of "crop_width c" d m 300]
    by (simp add: cropCanvas_size density_kept)
  from a show "canvas_height (cropCanvas c img (js_or (Num d) (Num 1))) = n"
    using canvas_dimension_nat [of "crop_height c" d n 150]
    by (simp add: cropCanvas_size density_kept)
next
  show "canvas_width (cropCanvas c img' p) = canvas_width (cropCanvas c img p)"
    by (simp add: cropCanvas_size)
  show "canvas_height (cropCanvas c img' p) = canvas_height (cropCanvas c img p)"
    by (simp add: cropCanvas_size)
next
  assume a: "crop_x c = 50 \<and> crop_y c = 50 \<and> crop_width c = 100 \<and> crop_height c = 80"
  then show "canvas_width (cropCanvas c img (js_or (Num 2) (Num 1))) = 200"
    using canvas_dimension_nat [of 100 2 200 300]
    by (simp add: cropCanvas_size density_kept)
  from a show "canvas_height (cropCanvas c img (js_or (Num 2) (Num 1))) = 160"
    using canvas_dimension_nat [of 80 2 160 150]
    by (simp add: cropCanvas_size density_kept)
next
  assume a: "completedCrop s = Some c \<and> imgRef e = Some img \<and> getContext2d e
      \<and> devicePixelRatio e = Num d \<and> 1 \<le> d
      \<and> dataURLtoFile (atob e) (toDataURL e (cropCanvas c img (Num d)))
           (''cropped-'' @ show_nat (now e) @ ''.png'') = Inr f"
  then show "handleApplyCrop e s = Inr (addImageToHistory s f)"
    by (simp add: handleApplyCrop_appends)
next
  assume "historyIndex s = int (length (history s)) - 1"
  then show "history (addImageToHistory s f) = history s @ [f]"
    by (rule append_at_end)
qed

theorem crop_output_size_witness:
  "canvas_width (cropCanvas \<lparr>crop_x = 50, crop_y = 50, crop_width = 100, crop_height = 80, unit = Px\<rparr>
      shown_image (js_or (devicePixelRatio stub_env) (Num 1))) = 200
   \<and> canvas_height (cropCanvas \<lparr>crop_x = 50, crop_y = 50, crop_width = 100, crop_height = 80, unit = Px\<rparr>
      shown_image (js_or (devicePixelRatio stub_env) (Num 1))) = 160
   \<and> canvas_width (cropCanvas \<lparr>crop_x = 50, crop_y = 50, crop_width = 100, crop_height = 80, unit = Px\<rparr>
      tiny_image (js_or (devicePixelRatio stub_env) (Num 1))) = 200
   \<and> canvas_width (cropCanvas \<lparr>crop_x = 50, crop_y = 50, crop_width = 101, crop_height = 75, unit = Px\<rparr>
      shown_image (js_or (Num (3 / 2)) (Num 1))) = 151
   \<and> canvas_height (cropCanvas \<lparr>crop_x = 50, crop_y = 50, crop_width = 101, crop_height = 75, unit = Px\<rparr>
      shown_image (js_or (Num (3 / 2)) (Num 1))) = 112
   \<and> history selecting = [snapshot ''I0'']
   \<and> (\<exists>s'. handleApplyCrop stub_env selecting = Inr s'
        \<and> history s' = [snapshot ''I0'',
             \<lparr>bits = ''Q1JPUA=='', name = ''cropped-'' @ show_nat (now stub_env) @ ''.png'',
              mime_type = ''image/png''\<rparr>]
        \<and> editHotspot s' = Some (Num 200, Num 300))"
proof -
  let ?c = "\<lparr>crop_x = 50, crop_y = 50, crop_width = 100, crop_height = 80, unit = Px\<rparr>"
  let ?o = "\<lparr>crop_x = 50, crop_y = 50, crop_width = 101, crop_height = 75, unit = Px\<rparr>"
  let ?f = "\<lparr>bits = ''Q1JPUA=='', name = ''cropped-'' @ show_nat (now stub_env) @ ''.png'',
              mime_type = ''image/png''\<rparr>"
  note even = crop_output_size [of ?c 2 shown_image 200 160 tiny_image "js_or (Num 2) (Num 1)"
      selecting stub_env ?f]
  note odd = crop_output_size [of ?o "3 / 2" shown_image 0 0 tiny_image "js_or (Num 2) (Num 1)"
      selecting stub_env ?f]
  have pre: "completedCrop selecting = Some ?c \<and> imgRef stub_env = Some shown_image
      \<and> getContext2d stub_env \<and> devicePixelRatio stub_env = Num 2 \<and> (1::real) \<le> 2
      \<and> dataURLtoFile (atob stub_env) (toDataURL stub_env (cropCanvas ?c shown_image (Num 2)))
           (''cropped-'' @ show_nat (now stub_env) @ ''.png'') = Inr ?f"
    by (simp add: selecting_simps stub_env_simps stub_decodes)
  have last: "historyIndex selecting = int (length (history selecting)) - 1"
    by (simp add: selecting_simps)
  from even [THEN conjunct2, THEN conjunct1]
  have size: "canvas_width (cropCanvas ?c shown_image (js_or (Num 2) (Num 1))) = 200
     \<and> canvas_height (cropCanvas ?c shown_image (js_or (Num 2) (Num 1))) = 160"
    by simp
  from even [THEN conjunct2, THEN conjunct2, THEN conjunct1] size
  have tiny: "canvas_width (cropCanvas ?c tiny_image (js_or (Num 2) (Num 1))) = 200"
    by simp
  have r: "fl64 (303 / 2) = 303 / 2" "fl64 (225 / 2) = 225 / 2"
    using fl64_representable [of "303 / 2" 303 "- 1"] fl64_representable [of "225 / 2" 225 "- 1"]
    by (simp_all add: power_int_minus)
  from odd [THEN conjunct1] r
  have frac: "canvas_width (cropCanvas ?o shown_image (js_or (Num (3 / 2)) (Num 1))) = 151
     \<and> canvas_height (cropCanvas ?o shown_image (js_or (Num (3 / 2)) (Num 1))) = 112"
    by simp
  from even [THEN conjunct2, THEN conjunct2, THEN conjunct2, THEN conjunct2, THEN conjunct2] pre last
  have app: "handleApplyCrop stub_env selecting = Inr (addImageToHistory selecting ?f)"
    "history (addImageToHistory selecting ?f) = history selecting @ [?f]"
    by blast+
  have hot: "editHotspot (addImageToHistory selecting ?f) = Some (Num 200, Num 300)"
    by (simp add: addImageToHistory_def Let_def selecting_simps)
  from size tiny frac app hot show ?thesis
    by (simp add: selecting_simps stub_env_simps)
qed

end
